theory Spec2Isabelle
  imports Complex_Main
begin

section \<open>JavaScript values and strings\<close>

text \<open>
  A JavaScript number is kept as the exact rational it denotes, or one of the three
  non-finite values: \<open>Fin q\<close> stands for the binary64 number nearest to \<open>q\<close>.
  A string is a list of code units below 256 (\<open>CHR 0xA0\<close> is U+00A0), so a string with a
  code unit from 256 on is outside the model. Of the white space that \<open>\s\<close>, \<open>trim\<close> and
  \<open>parseFloat\<close> recognise, the code units below 256 are the six ASCII ones and the
  no-break space U+00A0; the digits of \<open>\d\<close> are the ASCII ones.
\<close>

datatype jnum = NaN | PosInf | NegInf | Fin rat

datatype jval =
    JUndef
  | JNull
  | JBool bool
  | JNum jnum
  | JBig int
  | JStr string
  | JArr "jval list"
  | JObj "(string \<times> jval) list"

text \<open>An object lists its properties in enumeration order, each key once.\<close>

type_synonym IDataObject = "(string \<times> jval) list"

definition is_digit :: "char \<Rightarrow> bool" where
  "is_digit c = (c \<in> set ''0123456789'')"

definition is_space :: "char \<Rightarrow> bool" where
  "is_space c = (c \<in> {CHR '' '', CHR 0x09, CHR 0x0A, CHR 0x0B, CHR 0x0C, CHR 0x0D, CHR 0xA0})"

definition digit_val :: "char \<Rightarrow> nat" where
  "digit_val c = of_char c - 48"

fun digits_val :: "nat \<Rightarrow> string \<Rightarrow> nat" where
  "digits_val acc [] = acc"
| "digits_val acc (c # cs) = digits_val (acc * 10 + digit_val c) cs"

text \<open>\<open>s.split(c)\<close> for a one-character separator: always at least one piece.\<close>

fun split_on :: "char \<Rightarrow> string \<Rightarrow> string list" where
  "split_on c [] = [[]]"
| "split_on c (x # xs) =
     (if x = c then [] # split_on c xs
      else (case split_on c xs of
              [] \<Rightarrow> [[x]]
            | w # ws \<Rightarrow> (x # w) # ws))"

definition trim :: "string \<Rightarrow> string" where
  "trim s = rev (dropWhile is_space (rev (dropWhile is_space s)))"

text \<open>\<open>s.split(/\s+/).filter(t => t.length > 0)\<close>: the maximal runs of non-space characters.\<close>

fun tokens_acc :: "string \<Rightarrow> string \<Rightarrow> string list" where
  "tokens_acc cur [] = (if cur = [] then [] else [rev cur])"
| "tokens_acc cur (c # cs) =
     (if is_space c then (if cur = [] then tokens_acc [] cs else rev cur # tokens_acc [] cs)
      else tokens_acc (c # cur) cs)"

definition tokens :: "string \<Rightarrow> string list" where
  "tokens s = tokens_acc [] s"

text \<open>
  \<open>obj[k] = v\<close> on a plain object. An existing property keeps its place. Among new ones,
  an array index (the canonical decimal form of an integer below \<open>2^32 - 1\<close>) goes among
  the array indices, which come first in ascending order; any other key goes last. An
  assignment to \<open>__proto__\<close> reaches the setter of the prototype and gives the object no
  property of its own.
\<close>

fun index_val :: "int \<Rightarrow> string \<Rightarrow> int" where
  "index_val acc [] = acc"
| "index_val acc (c # cs) = index_val (acc * 10 + int (digit_val c)) cs"

definition is_index_key :: "string \<Rightarrow> bool" where
  "is_index_key k =
     (k \<noteq> [] \<and> list_all is_digit k \<and> (k = ''0'' \<or> hd k \<noteq> CHR ''0'')
      \<and> index_val 0 k < 4294967295)"

fun replace_value :: "(string \<times> 'v) list \<Rightarrow> string \<Rightarrow> 'v \<Rightarrow> (string \<times> 'v) list" where
  "replace_value [] k v = []"
| "replace_value ((k', v') # kvs) k v =
     (if k' = k then (k, v) # kvs else (k', v') # replace_value kvs k v)"

fun insert_index :: "(string \<times> 'v) list \<Rightarrow> string \<Rightarrow> 'v \<Rightarrow> (string \<times> 'v) list" where
  "insert_index [] k v = [(k, v)]"
| "insert_index ((k', v') # kvs) k v =
     (if is_index_key k' \<and> index_val 0 k' < index_val 0 k
      then (k', v') # insert_index kvs k v
      else (k, v) # (k', v') # kvs)"

definition obj_set :: "(string \<times> 'v) list \<Rightarrow> string \<Rightarrow> 'v \<Rightarrow> (string \<times> 'v) list" where
  "obj_set kvs k v =
     (if k = ''__proto__'' then kvs
      else if k \<in> set (map fst kvs) then replace_value kvs k v
      else if is_index_key k then insert_index kvs k v
      else kvs @ [(k, v)])"

subsection \<open>parseFloat\<close>

text \<open>
  \<open>parseFloat\<close> skips leading white space and reads the longest prefix that is a decimal
  literal: a sign, then \<open>Infinity\<close> or digits with an optional fraction and an optional
  exponent (taken only when it has digits). Without any such prefix the result is NaN.
\<close>

definition starts_with :: "string \<Rightarrow> string \<Rightarrow> bool" where
  "starts_with p s = (take (length p) s = p)"

definition exponent_of :: "string \<Rightarrow> int" where
  "exponent_of r =
     (case r of
        [] \<Rightarrow> 0
      | c # r1 \<Rightarrow>
          if c = CHR ''e'' \<or> c = CHR ''E'' then
            (case r1 of
               [] \<Rightarrow> 0
             | d # r2 \<Rightarrow>
                 if d = CHR ''-'' then - int (digits_val 0 (takeWhile is_digit r2))
                 else if d = CHR ''+'' then int (digits_val 0 (takeWhile is_digit r2))
                 else int (digits_val 0 (takeWhile is_digit r1)))
          else 0)"

definition scale10 :: "rat \<Rightarrow> int \<Rightarrow> rat" where
  "scale10 q e = (if 0 \<le> e then q * 10 ^ nat e else q / 10 ^ nat (- e))"

definition unsigned_literal :: "string \<Rightarrow> jnum" where
  "unsigned_literal r =
     (if starts_with ''Infinity'' r then PosInf
      else
        let ip = takeWhile is_digit r;
            r1 = dropWhile is_digit r;
            has_dot = (r1 \<noteq> [] \<and> hd r1 = CHR ''.'');
            fp = (if has_dot then takeWhile is_digit (tl r1) else []);
            r2 = (if has_dot then dropWhile is_digit (tl r1) else r1)
        in if ip = [] \<and> fp = [] then NaN
           else Fin (scale10 (of_nat (digits_val 0 (ip @ fp)) / 10 ^ length fp) (exponent_of r2)))"

definition negate :: "jnum \<Rightarrow> jnum" where
  "negate n = (case n of NaN \<Rightarrow> NaN | PosInf \<Rightarrow> NegInf | NegInf \<Rightarrow> PosInf | Fin q \<Rightarrow> Fin (- q))"

definition parseFloat :: "string \<Rightarrow> jnum" where
  "parseFloat s =
     (case dropWhile is_space s of
        [] \<Rightarrow> NaN
      | c # r \<Rightarrow>
          if c = CHR ''-'' then negate (unsigned_literal r)
          else if c = CHR ''+'' then unsigned_literal r
          else unsigned_literal (c # r))"

section \<open>The report parser (utils.ts)\<close>

datatype error =
    Error string
  | TypeError string
  | NodeOperationError string "nat option"

fun error_message :: "error \<Rightarrow> string" where
  "error_message (Error m) = m"
| "error_message (TypeError m) = m"
| "error_message (NodeOperationError m _) = m"

text \<open>
  \<open>new NodeOperationError(node, error, {itemIndex})\<close> for a caught error (the class is the
  one of n8n-workflow): the constructor returns the error itself when it already is a
  NodeOperationError, with the item index it has or has not; any other error is wrapped,
  with its message and the given index.
\<close>

definition rethrow :: "error \<Rightarrow> nat option \<Rightarrow> error" where
  "rethrow e itemIndex =
     (case e of
        NodeOperationError m i \<Rightarrow> NodeOperationError m i
      | _ \<Rightarrow> NodeOperationError (error_message e) itemIndex)"

text \<open>\<open>/^[\d\.]+$/\<close>: one or more characters, each a digit or a dot.\<close>

definition numeric_like :: "string \<Rightarrow> bool" where
  "numeric_like v = (v \<noteq> [] \<and> list_all (\<lambda>c. is_digit c \<or> c = CHR ''.'') v)"

definition getParsedValue :: "string \<Rightarrow> jval" where
  "getParsedValue v = (if \<not> numeric_like v then JStr v else JNum (parseFloat v))"

text \<open>
  The inner loop over the \<open>k=v\<close> pairs of a nested value. A pair without \<open>=\<close> leaves
  \<open>value2\<close> undefined, and \<open>getParsedValue\<close> then raises a TypeError on \<open>value.match\<close>.
\<close>

fun nested_pairs :: "IDataObject \<Rightarrow> string list \<Rightarrow> error + IDataObject" where
  "nested_pairs obj [] = Inr obj"
| "nested_pairs obj (p # ps) =
     (case split_on CHR ''='' p of
        key2 # value2 # _ \<Rightarrow> nested_pairs (obj_set obj key2 (getParsedValue value2)) ps
      | _ \<Rightarrow> Inl (TypeError ''Cannot read properties of undefined (reading 'match')''))"

fun info_lines :: "IDataObject \<Rightarrow> string list \<Rightarrow> error + IDataObject" where
  "info_lines returnData [] = Inr returnData"
| "info_lines returnData (line # lines) =
     (if line = [] \<or> hd line = CHR ''#'' then info_lines returnData lines
      else (case split_on CHR '':'' line of
              key # value # _ \<Rightarrow>
                (let value = trim value in
                 if CHR ''='' \<in> set value then
                   (case nested_pairs [] (split_on CHR '','' value) of
                      Inl e \<Rightarrow> Inl e
                    | Inr nested \<Rightarrow> info_lines (obj_set returnData key (JObj nested)) lines)
                 else info_lines (obj_set returnData key (getParsedValue value)) lines)
            | _ \<Rightarrow> info_lines returnData lines))"

definition convertInfoToObject :: "string \<Rightarrow> error + IDataObject" where
  "convertInfoToObject stringData = info_lines [] (split_on CHR 0x0A stringData)"

section \<open>The store client and the host runtime\<close>

record RedisCredential =
  host :: string
  port :: int
  database :: int
  user :: "string option"
  password :: "string option"
  ssl :: "bool option"

record client_options =
  socket_host :: string
  socket_port :: int
  socket_tls :: bool
  opt_database :: int
  opt_username :: "string option"
  opt_password :: "string option"

text \<open>\<open>x || undefined\<close> on an optional string: the empty string counts as absent.\<close>

definition or_undefined :: "string option \<Rightarrow> string option" where
  "or_undefined x = (case x of None \<Rightarrow> None | Some s \<Rightarrow> if s = [] then None else Some s)"

definition setupRedisClient :: "RedisCredential \<Rightarrow> client_options" where
  "setupRedisClient credentials =
     \<lparr> socket_host = host credentials,
       socket_port = port credentials,
       socket_tls = (ssl credentials = Some True),
       opt_database = database credentials,
       opt_username = or_undefined (user credentials),
       opt_password = or_undefined (password credentials) \<rparr>"

record set_options =
  opt_EX :: "rat option"
  opt_NX :: bool
  opt_XX :: bool

text \<open>
  One constructor per client method the code calls, with the arguments it passes.
  \<open>Set k v None\<close> is the two-argument call, \<open>HSetList\<close> the call with an array of
  tokens, \<open>SAdd\<close> takes the value as \<open>setValue\<close> hands it over.
\<close>

datatype call =
    Connect client_options | Ping | Quit | Info
  | Del string | Type string | Get string | HGetAll string | LRange string int int
  | SMembers string
  | Set string string "set_options option"
  | HSet string string string | HSetList string "string list"
  | LSet string nat string | SAdd string jval | Expire string rat
  | SendCommand "string list"
  | Keys string | Incr string | Publish string string
  | RPush string string | LPush string string | RPop string | LPop string
  | Exists "string list" | MGet "string list" | MSet "(string \<times> string) list"
  | Scan rat string rat | Ttl string | Persist string | ExpireAt string rat
  | GetSet string string | Append string string | StrLen string
  | BlPop string rat | BrPop string rat | LLen string
  | SAddMembers string "string list" | SRem string "string list"
  | SIsMember string string | SCard string
  | ZAdd string "(jnum \<times> string) list"
  | ZRangeWithScores string rat rat | ZRange string rat rat
  | ZRem string "string list" | ZCard string
  | HLen string | HKeys string | HVals string | HExists string string
  | Eval string "string list" "string list"

record item =
  json :: IDataObject
  pairedItem :: "nat option"

text \<open>
  What the code receives from outside. \<open>getNodeParameter(name, i)\<close> is read at the type
  the source casts it to (\<open>sparam\<close> for \<open>as string\<close>, \<open>nparam\<close> for \<open>as number\<close>,
  \<open>bparam\<close> for \<open>as boolean\<close>, \<open>vparam\<close> for values and option objects); \<open>None\<close> is a
  parameter without value, where the host raises unless the call gives a fallback.
  \<open>respond\<close> is the store: its answer to a call may depend on every call made before,
  and \<open>Inl\<close> is a rejected promise. \<open>JSON_parse\<close>, \<open>JSON_stringify\<close>,
  \<open>number_toString\<close> and lodash's \<open>set\<close> are the library functions of those names.
\<close>

record host_env =
  getCredentials :: "error + RedisCredential"
  sparam :: "string \<Rightarrow> nat \<Rightarrow> string option"
  nparam :: "string \<Rightarrow> nat \<Rightarrow> rat option"
  bparam :: "string \<Rightarrow> nat \<Rightarrow> bool option"
  vparam :: "string \<Rightarrow> nat \<Rightarrow> jval option"
  continueOnFail :: bool
  getInputData :: "item list"
  respond :: "call list \<Rightarrow> call \<Rightarrow> error + jval"
  JSON_parse :: "string \<Rightarrow> error + jval"
  JSON_stringify :: "jval \<Rightarrow> string"
  number_toString :: "jnum \<Rightarrow> string"
  lodash_set :: "IDataObject \<Rightarrow> string \<Rightarrow> jval \<Rightarrow> IDataObject"

text \<open>The run's state: the calls made on the client so far, and \<open>returnItems\<close>.\<close>

record run_state =
  calls :: "call list"
  returnItems :: "item list"

type_synonym 'a eff = "run_state \<Rightarrow> (error + 'a) \<times> run_state"

definition ret :: "'a \<Rightarrow> 'a eff" where
  "ret x st = (Inr x, st)"

definition throw :: "error \<Rightarrow> 'a eff" where
  "throw e st = (Inl e, st)"

definition then_do :: "'a eff \<Rightarrow> ('a \<Rightarrow> 'b eff) \<Rightarrow> 'b eff" where
  "then_do m f st = (case m st of (Inl e, st') \<Rightarrow> (Inl e, st') | (Inr x, st') \<Rightarrow> f x st')"

definition lift :: "error + 'a \<Rightarrow> 'a eff" where
  "lift r st = (r, st)"

definition client_call :: "host_env \<Rightarrow> call \<Rightarrow> jval eff" where
  "client_call env c st = (respond env (calls st) c, st\<lparr>calls := calls st @ [c]\<rparr>)"

definition push :: "item \<Rightarrow> unit eff" where
  "push it st = (Inr (), st\<lparr>returnItems := returnItems st @ [it]\<rparr>)"

definition required :: "'a option \<Rightarrow> 'a eff" where
  "required p = (case p of None \<Rightarrow> throw (Error ''Could not get parameter'') | Some v \<Rightarrow> ret v)"

definition with_default :: "'a \<Rightarrow> 'a option \<Rightarrow> 'a" where
  "with_default d p = (case p of None \<Rightarrow> d | Some v \<Rightarrow> v)"

subsection \<open>JavaScript operations the code relies on\<close>

definition digit_char :: "nat \<Rightarrow> char" where
  "digit_char d = char_of (48 + d)"

fun show_nat :: "nat \<Rightarrow> string" where
  "show_nat n = (if n < 10 then [digit_char n] else show_nat (n div 10) @ [digit_char (n mod 10)])"

declare show_nat.simps [simp del]

definition show_int :: "int \<Rightarrow> string" where
  "show_int z = (if z < 0 then CHR ''-'' # show_nat (nat (- z)) else show_nat (nat z))"

fun join_comma :: "string list \<Rightarrow> string" where
  "join_comma [] = []"
| "join_comma [s] = s"
| "join_comma (s # t # ts) = s @ CHR '','' # join_comma (t # ts)"

text \<open>
  The string a value turns into inside \<open>Array.prototype.join\<close>: null and undefined give
  the empty string, an array joins its elements, a plain object is \<open>[object Object]\<close>.
\<close>

fun js_string :: "(jnum \<Rightarrow> string) \<Rightarrow> jval \<Rightarrow> string" where
  "js_string nts JUndef = []"
| "js_string nts JNull = []"
| "js_string nts (JBool b) = (if b then ''true'' else ''false'')"
| "js_string nts (JNum n) = nts n"
| "js_string nts (JBig z) = show_int z"
| "js_string nts (JStr s) = s"
| "js_string nts (JArr xs) = join_comma (map (js_string nts) xs)"
| "js_string nts (JObj kvs) = ''[object Object]''"

text \<open>\<open>v.toString()\<close>: a TypeError on null and undefined.\<close>

definition toString :: "host_env \<Rightarrow> jval \<Rightarrow> error + string" where
  "toString env v =
     (if v = JNull \<or> v = JUndef
      then Inl (TypeError ''Cannot read properties of null or undefined (reading 'toString')'')
      else Inr (js_string (number_toString env) v))"

definition truthy :: "jval \<Rightarrow> bool" where
  "truthy v =
     (case v of
        JUndef \<Rightarrow> False
      | JNull \<Rightarrow> False
      | JBool b \<Rightarrow> b
      | JNum n \<Rightarrow> n \<noteq> NaN \<and> n \<noteq> Fin 0
      | JBig z \<Rightarrow> z \<noteq> 0
      | JStr s \<Rightarrow> s \<noteq> []
      | _ \<Rightarrow> True)"

text \<open>
  \<open>v.name\<close> for a data property: a TypeError on null and undefined, undefined where
  the value has no such property (the built-in members of strings and arrays are not
  data and are not looked at by the code).
\<close>

definition get_prop :: "jval \<Rightarrow> string \<Rightarrow> error + jval" where
  "get_prop v name =
     (case v of
        JUndef \<Rightarrow> Inl (TypeError ''Cannot read properties of undefined'')
      | JNull \<Rightarrow> Inl (TypeError ''Cannot read properties of null'')
      | JObj kvs \<Rightarrow> Inr (case map_of kvs name of None \<Rightarrow> JUndef | Some x \<Rightarrow> x)
      | _ \<Rightarrow> Inr JUndef)"

text \<open>\<open>xs[i]\<close> on a reply that is an array: undefined out of range.\<close>

definition get_index :: "jval \<Rightarrow> nat \<Rightarrow> error + jval" where
  "get_index v i =
     (case v of
        JUndef \<Rightarrow> Inl (TypeError ''Cannot read properties of undefined'')
      | JNull \<Rightarrow> Inl (TypeError ''Cannot read properties of null'')
      | JArr xs \<Rightarrow> Inr (if i < length xs then xs ! i else JUndef)
      | JStr s \<Rightarrow> Inr (if i < length s then JStr [s ! i] else JUndef)
      | JObj kvs \<Rightarrow> Inr (case map_of kvs (show_nat i) of None \<Rightarrow> JUndef | Some x \<Rightarrow> x)
      | _ \<Rightarrow> Inr JUndef)"

text \<open>
  The pairs \<open>(k, v[k])\<close> for \<open>k\<close> in \<open>Object.keys(v)\<close>: the properties of an object, the
  indexed elements of an array, the indexed characters of a string, nothing for a number
  or a boolean, and a TypeError on null and undefined.
\<close>

definition own_entries :: "jval \<Rightarrow> error + (string \<times> jval) list" where
  "own_entries v =
     (case v of
        JUndef \<Rightarrow> Inl (TypeError ''Cannot convert undefined or null to object'')
      | JNull \<Rightarrow> Inl (TypeError ''Cannot convert undefined or null to object'')
      | JObj kvs \<Rightarrow> Inr kvs
      | JArr xs \<Rightarrow> Inr (zip (map show_nat [0..<length xs]) xs)
      | JStr s \<Rightarrow> Inr (zip (map show_nat [0..<length s]) (map (\<lambda>c. JStr [c]) s))
      | _ \<Rightarrow> Inr [])"

subsection \<open>Conversion to a number\<close>

text \<open>
  \<open>Number(s)\<close> for a string: white space around the literal is dropped, the empty string
  is 0, and the whole rest has to be one literal: \<open>0x\<close>, \<open>0o\<close> or \<open>0b\<close> with digits of
  that base, or a signed decimal literal (\<open>Infinity\<close>, or digits with an optional
  fraction and an optional complete exponent). Anything else is NaN.
\<close>

definition radix_digit :: "char \<Rightarrow> nat option" where
  "radix_digit c =
     (if is_digit c then Some (digit_val c)
      else if c \<in> set ''abcdef'' then Some (of_char c - 87)
      else if c \<in> set ''ABCDEF'' then Some (of_char c - 55)
      else None)"

fun radix_val :: "nat \<Rightarrow> nat \<Rightarrow> string \<Rightarrow> nat option" where
  "radix_val base acc [] = Some acc"
| "radix_val base acc (c # cs) =
     (case radix_digit c of
        None \<Rightarrow> None
      | Some d \<Rightarrow> if d < base then radix_val base (acc * base + d) cs else None)"

definition radix_literal :: "nat \<Rightarrow> string \<Rightarrow> jnum" where
  "radix_literal base ds =
     (if ds = [] then NaN
      else (case radix_val base 0 ds of None \<Rightarrow> NaN | Some n \<Rightarrow> Fin (of_nat n)))"

definition exponent_full :: "string \<Rightarrow> int option" where
  "exponent_full r =
     (case r of
        [] \<Rightarrow> Some 0
      | c # r1 \<Rightarrow>
          if c = CHR ''e'' \<or> c = CHR ''E'' then
            (let neg = (r1 \<noteq> [] \<and> hd r1 = CHR ''-'');
                 ds = (if r1 \<noteq> [] \<and> (hd r1 = CHR ''-'' \<or> hd r1 = CHR ''+'') then tl r1 else r1)
             in if ds \<noteq> [] \<and> list_all is_digit ds
                then Some (if neg then - int (digits_val 0 ds) else int (digits_val 0 ds))
                else None)
          else None)"

definition unsigned_full :: "string \<Rightarrow> jnum" where
  "unsigned_full r =
     (if r = ''Infinity'' then PosInf
      else
        let ip = takeWhile is_digit r;
            r1 = dropWhile is_digit r;
            has_dot = (r1 \<noteq> [] \<and> hd r1 = CHR ''.'');
            fp = (if has_dot then takeWhile is_digit (tl r1) else []);
            r2 = (if has_dot then dropWhile is_digit (tl r1) else r1)
        in if ip = [] \<and> fp = [] then NaN
           else (case exponent_full r2 of
                   None \<Rightarrow> NaN
                 | Some e \<Rightarrow> Fin (scale10 (of_nat (digits_val 0 (ip @ fp)) / 10 ^ length fp) e)))"

definition string_to_number :: "string \<Rightarrow> jnum" where
  "string_to_number s =
     (let t = trim s in
      if t = [] then Fin 0
      else if starts_with ''0x'' t \<or> starts_with ''0X'' t then radix_literal 16 (drop 2 t)
      else if starts_with ''0o'' t \<or> starts_with ''0O'' t then radix_literal 8 (drop 2 t)
      else if starts_with ''0b'' t \<or> starts_with ''0B'' t then radix_literal 2 (drop 2 t)
      else if hd t = CHR ''-'' then negate (unsigned_full (tl t))
      else if hd t = CHR ''+'' then unsigned_full (tl t)
      else unsigned_full t)"

text \<open>
  The number a value stands for on the right of \<open><\<close> with a number on the left: an
  array goes through its string, a plain object through \<open>[object Object]\<close>.
\<close>

definition to_number :: "(jnum \<Rightarrow> string) \<Rightarrow> jval \<Rightarrow> jnum" where
  "to_number nts v =
     (case v of
        JUndef \<Rightarrow> NaN
      | JNull \<Rightarrow> Fin 0
      | JBool b \<Rightarrow> Fin (if b then 1 else 0)
      | JNum n \<Rightarrow> n
      | JBig z \<Rightarrow> Fin (of_int z)
      | JStr s \<Rightarrow> string_to_number s
      | JArr xs \<Rightarrow> string_to_number (js_string nts (JArr xs))
      | JObj kvs \<Rightarrow> NaN)"

text \<open>
  The elements \<open>v[0], v[1], ...\<close> that the loop \<open>for (index = 0; index < v.length; index++)\<close>
  reads: the characters of a string, the elements of an array, nothing for a number or a
  boolean (\<open>0 < undefined\<close> is false); null and undefined raise. A plain object is read
  through its \<open>length\<close> property, if it has one: the indices below that number, each
  giving the property of that name or undefined. Under an infinite \<open>length\<close> the loop
  goes on until an element is undefined and its \<open>toString\<close> raises, which happens at one
  of the first \<open>n + 1\<close> indices of an object with \<open>n\<close> properties.
\<close>

definition object_elems :: "(jnum \<Rightarrow> string) \<Rightarrow> (string \<times> jval) list \<Rightarrow> jval list" where
  "object_elems nts kvs =
     (let count = (case map_of kvs ''length'' of
                     None \<Rightarrow> 0
                   | Some l \<Rightarrow>
                       (case to_number nts l of
                          Fin q \<Rightarrow> nat \<lceil>q\<rceil>
                        | PosInf \<Rightarrow> Suc (length kvs)
                        | _ \<Rightarrow> 0))
      in map (\<lambda>i. case map_of kvs (show_nat i) of None \<Rightarrow> JUndef | Some x \<Rightarrow> x) [0..<count])"

definition indexed_elems :: "host_env \<Rightarrow> jval \<Rightarrow> error + jval list" where
  "indexed_elems env v =
     (case v of
        JUndef \<Rightarrow> Inl (TypeError ''Cannot read properties of undefined (reading 'length')'')
      | JNull \<Rightarrow> Inl (TypeError ''Cannot read properties of null (reading 'length')'')
      | JArr xs \<Rightarrow> Inr xs
      | JStr s \<Rightarrow> Inr (map (\<lambda>c. JStr [c]) s)
      | JObj kvs \<Rightarrow> Inr (object_elems (number_toString env) kvs)
      | _ \<Rightarrow> Inr [])"

text \<open>
  \<open>toUpperCase\<close> on the ASCII letters, which are the letters of the declared set modes
  \<open>always\<close>, \<open>nx\<close> and \<open>xx\<close>; other code units are left as they are.
\<close>

definition upper_char :: "char \<Rightarrow> char" where
  "upper_char c =
     (if c \<in> set ''abcdefghijklmnopqrstuvwxyz'' then char_of (of_char c - (32::nat)) else c)"

definition toUpperCase :: "string \<Rightarrow> string" where
  "toUpperCase s = map upper_char s"

text \<open>
  \<open>JSON.parse(x)\<close> inside \<open>try ... catch\<close> with the raw value as fallback, for a reply that
  is a string or null.
\<close>

definition parse_or_raw :: "host_env \<Rightarrow> jval \<Rightarrow> jval" where
  "parse_or_raw env v =
     (case v of
        JStr s \<Rightarrow> (case JSON_parse env s of Inl _ \<Rightarrow> v | Inr x \<Rightarrow> x)
      | _ \<Rightarrow> v)"

section \<open>Type-aware reads and writes (utils.ts)\<close>

definition getValue :: "host_env \<Rightarrow> string \<Rightarrow> string option \<Rightarrow> jval eff" where
  "getValue env keyName ty =
     then_do
       (case ty of
          None \<Rightarrow> client_call env (Type keyName)
        | Some t \<Rightarrow> if t = ''automatic'' then client_call env (Type keyName) else ret (JStr t))
       (\<lambda>ty.
          if ty = JStr ''string'' then client_call env (Get keyName)
          else if ty = JStr ''hash'' then client_call env (HGetAll keyName)
          else if ty = JStr ''list'' then client_call env (LRange keyName 0 (- 1))
          else if ty = JStr ''sets'' then client_call env (SMembers keyName)
          else ret JUndef)"

record SetResult =
  success :: bool
  operation :: string
  key :: string
  reason :: "string option"
  message :: "string option"

text \<open>The type a write targets: the explicit one, or the one inferred from the value's shape.\<close>

definition infer_type :: "jval \<Rightarrow> error + string" where
  "infer_type v =
     (case v of
        JStr _ \<Rightarrow> Inr ''string''
      | JArr _ \<Rightarrow> Inr ''list''
      | JObj _ \<Rightarrow> Inr ''hash''
      | JNull \<Rightarrow> Inr ''hash''
      | _ \<Rightarrow> Inl (NodeOperationError
                    ''Could not identify the type to set. Please set it manually!'' None))"

definition resolve_type :: "string option \<Rightarrow> jval \<Rightarrow> error + string" where
  "resolve_type ty v =
     (case ty of
        None \<Rightarrow> infer_type v
      | Some t \<Rightarrow> if t = ''automatic'' then infer_type v else Inr t)"

definition set_failure :: "string \<Rightarrow> string \<Rightarrow> SetResult" where
  "set_failure setMode keyName =
     \<lparr> success = False,
       operation = ''SET '' @ toUpperCase setMode,
       key = keyName,
       reason = Some (if setMode = ''nx'' then ''key_already_exists'' else ''key_does_not_exist''),
       message = Some (''SET '' @ toUpperCase setMode @ '' condition not met: key '' @ [CHR 0x22]
                       @ keyName @ [CHR 0x22, CHR '' '']
                       @ (if setMode = ''nx'' then ''already exists'' else ''does not exist'')) \<rparr>"

text \<open>
  The branch for the string type. \<open>Some r\<close> is the early return of the failure result,
  \<open>None\<close> falls through to the end of \<open>setValue\<close>.
\<close>

definition set_string ::
  "host_env \<Rightarrow> string \<Rightarrow> jval \<Rightarrow> bool \<Rightarrow> rat \<Rightarrow> string option \<Rightarrow> SetResult option eff" where
  "set_string env keyName v expire ttl setMode =
     (let setOptions = \<lparr> opt_EX = (if expire \<and> ttl > 0 then Some ttl else None),
                          opt_NX = (setMode = Some ''nx''),
                          opt_XX = (setMode \<noteq> Some ''nx'' \<and> setMode = Some ''xx'') \<rparr>
      in if opt_EX setOptions \<noteq> None \<or> opt_NX setOptions \<or> opt_XX setOptions then
           then_do (lift (toString env v)) (\<lambda>s.
           then_do (client_call env (Set keyName s (Some setOptions))) (\<lambda>result.
             (case setMode of
                None \<Rightarrow> ret None
              | Some m \<Rightarrow>
                  if result = JNull \<and> (m = ''nx'' \<or> m = ''xx'')
                  then ret (Some (set_failure m keyName))
                  else ret None)))
         else
           then_do (lift (toString env v)) (\<lambda>s.
           then_do (client_call env (Set keyName s None)) (\<lambda>_. ret None)))"

fun hset_each :: "host_env \<Rightarrow> string \<Rightarrow> (string \<times> jval) list \<Rightarrow> unit eff" where
  "hset_each env keyName [] st = (Inr (), st)"
| "hset_each env keyName ((k, x) # kvs) st =
     (case toString env x of
        Inl e \<Rightarrow> (Inl e, st)
      | Inr s \<Rightarrow>
          (case client_call env (HSet keyName k s) st of
             (Inl e, st') \<Rightarrow> (Inl e, st')
           | (Inr _, st') \<Rightarrow> hset_each env keyName kvs st'))"

definition set_hash :: "host_env \<Rightarrow> string \<Rightarrow> jval \<Rightarrow> bool \<Rightarrow> unit eff" where
  "set_hash env keyName v valueIsJSON =
     (if valueIsJSON then
        (let values = (case v of
                         JStr s \<Rightarrow> (case JSON_parse env s of Inl _ \<Rightarrow> v | Inr parsed \<Rightarrow> parsed)
                       | _ \<Rightarrow> v)
         in then_do (lift (own_entries values)) (hset_each env keyName))
      else
        then_do (lift (toString env v)) (\<lambda>s.
        then_do (client_call env (HSetList keyName (split_on CHR '' '' s))) (\<lambda>_. ret ())))"

fun lset_each :: "host_env \<Rightarrow> string \<Rightarrow> nat \<Rightarrow> jval list \<Rightarrow> unit eff" where
  "lset_each env keyName index [] st = (Inr (), st)"
| "lset_each env keyName index (x # xs) st =
     (case toString env x of
        Inl e \<Rightarrow> (Inl e, st)
      | Inr s \<Rightarrow>
          (case client_call env (LSet keyName index s) st of
             (Inl e, st') \<Rightarrow> (Inl e, st')
           | (Inr _, st') \<Rightarrow> lset_each env keyName (Suc index) xs st'))"

definition set_list :: "host_env \<Rightarrow> string \<Rightarrow> jval \<Rightarrow> unit eff" where
  "set_list env keyName v = then_do (lift (indexed_elems env v)) (lset_each env keyName 0)"

definition set_success :: "string \<Rightarrow> string option \<Rightarrow> SetResult" where
  "set_success keyName setMode =
     \<lparr> success = True,
       operation = (case setMode of
                      None \<Rightarrow> ''SET''
                    | Some m \<Rightarrow> if m = [] then ''SET'' else ''SET '' @ toUpperCase m),
       key = keyName,
       reason = None,
       message = None \<rparr>"

text \<open>The chain of branches over the resolved type.\<close>

definition write_value ::
  "host_env \<Rightarrow> string \<Rightarrow> jval \<Rightarrow> bool \<Rightarrow> rat \<Rightarrow> string \<Rightarrow> bool \<Rightarrow> string option
     \<Rightarrow> SetResult option eff" where
  "write_value env keyName v expire ttl ty valueIsJSON setMode =
     (if ty = ''string'' then set_string env keyName v expire ttl setMode
      else if ty = ''hash'' then
        then_do (set_hash env keyName v valueIsJSON) (\<lambda>_. ret None)
      else if ty = ''list'' then
        then_do (set_list env keyName v) (\<lambda>_. ret None)
      else if ty = ''sets'' then
        then_do (client_call env (SAdd keyName v)) (\<lambda>_. ret None)
      else ret None)"

definition setValue ::
  "host_env \<Rightarrow> string \<Rightarrow> jval \<Rightarrow> bool \<Rightarrow> rat \<Rightarrow> string option \<Rightarrow> bool \<Rightarrow> string option
     \<Rightarrow> SetResult eff" where
  "setValue env keyName v expire ttl ty valueIsJSON setMode =
     then_do (lift (resolve_type ty v)) (\<lambda>ty.
     then_do (write_value env keyName v expire ttl ty valueIsJSON setMode) (\<lambda>early.
       (case early of
          Some failure \<Rightarrow> ret failure
        | None \<Rightarrow>
            then_do
              (if expire \<and> ttl > 0 \<and> ty \<noteq> ''string''
               then then_do (client_call env (Expire keyName ttl)) (\<lambda>_. ret ())
               else ret ())
              (\<lambda>_. ret (set_success keyName setMode)))))"

definition SetResult_json :: "SetResult \<Rightarrow> jval" where
  "SetResult_json r =
     JObj ([(''success'', JBool (success r)), (''operation'', JStr (operation r)),
            (''key'', JStr (key r))]
           @ (case reason r of None \<Rightarrow> [] | Some x \<Rightarrow> [(''reason'', JStr x)])
           @ (case message r of None \<Rightarrow> [] | Some x \<Rightarrow> [(''message'', JStr x)]))"

section \<open>The operation handlers (RedisEnhanced.node.ts, the branches of the item loop)\<close>

text \<open>
  Each handler is the body of one branch for the item at \<open>itemIndex\<close>; \<open>it\<close> is
  \<open>items[itemIndex]\<close>, and the local \<open>item\<close> starts as an empty record paired with the index.
\<close>

definition nullish_to_null :: "jval \<Rightarrow> jval" where
  "nullish_to_null v = (if v = JUndef \<or> v = JNull then JNull else v)"

text \<open>Storing under \<open>propertyName\<close>: plainly when \<open>options.dotNotation === false\<close>, else by path.\<close>

definition set_property :: "host_env \<Rightarrow> nat \<Rightarrow> string \<Rightarrow> jval \<Rightarrow> IDataObject eff" where
  "set_property env itemIndex propertyName v =
     then_do (lift (get_prop (with_default (JObj []) (vparam env ''options'' itemIndex))
                             ''dotNotation'')) (\<lambda>dotNotation.
       ret (if dotNotation = JBool False then obj_set [] propertyName v
            else lodash_set env [] propertyName v))"

definition op_delete :: "host_env \<Rightarrow> nat \<Rightarrow> item \<Rightarrow> unit eff" where
  "op_delete env itemIndex it =
     then_do (required (sparam env ''key'' itemIndex)) (\<lambda>keyDelete.
     then_do (client_call env (Del keyDelete)) (\<lambda>_.
     push it))"

definition op_get :: "host_env \<Rightarrow> nat \<Rightarrow> unit eff" where
  "op_get env itemIndex =
     then_do (required (sparam env ''propertyName'' itemIndex)) (\<lambda>propertyName.
     then_do (required (sparam env ''key'' itemIndex)) (\<lambda>keyGet.
     then_do (required (sparam env ''keyType'' itemIndex)) (\<lambda>keyType.
     then_do (getValue env keyGet (Some keyType)) (\<lambda>v.
     then_do (set_property env itemIndex propertyName (nullish_to_null v)) (\<lambda>j.
     push \<lparr> json = j, pairedItem = Some itemIndex \<rparr>)))))"

text \<open>
  The elements a \<open>for ... of\<close> loop takes from the reply of \<open>keys()\<close>, which the client
  declares as an array of strings.
\<close>

definition iterate_names :: "host_env \<Rightarrow> jval \<Rightarrow> error + string list" where
  "iterate_names env v =
     (case v of
        JArr xs \<Rightarrow> Inr (map (js_string (number_toString env)) xs)
      | JStr s \<Rightarrow> Inr (map (\<lambda>c. [c]) s)
      | _ \<Rightarrow> Inl (TypeError ''keys is not iterable''))"

fun keys_values :: "host_env \<Rightarrow> string list \<Rightarrow> IDataObject \<Rightarrow> IDataObject eff" where
  "keys_values env [] acc st = (Inr acc, st)"
| "keys_values env (keyName # rest) acc st =
     (case getValue env keyName None st of
        (Inl e, st') \<Rightarrow> (Inl e, st')
      | (Inr v, st') \<Rightarrow> keys_values env rest (obj_set acc keyName v) st')"

definition op_keys :: "host_env \<Rightarrow> nat \<Rightarrow> unit eff" where
  "op_keys env itemIndex =
     then_do (required (sparam env ''keyPattern'' itemIndex)) (\<lambda>keyPattern.
     then_do (client_call env (Keys keyPattern)) (\<lambda>keys.
       if \<not> with_default True (bparam env ''getValues'' itemIndex)
       then push \<lparr> json = [(''keys'', keys)], pairedItem = None \<rparr>
       else
         then_do (lift (iterate_names env keys)) (\<lambda>names.
         then_do (keys_values env names []) (\<lambda>j.
         push \<lparr> json = j, pairedItem = Some itemIndex \<rparr>))))"

definition op_set :: "host_env \<Rightarrow> nat \<Rightarrow> item \<Rightarrow> unit eff" where
  "op_set env itemIndex it =
     then_do (required (sparam env ''key'' itemIndex)) (\<lambda>keySet.
     then_do (required (vparam env ''value'' itemIndex)) (\<lambda>v.
     then_do (required (sparam env ''keyType'' itemIndex)) (\<lambda>keyType.
     then_do (setValue env keySet v
                (with_default False (bparam env ''expire'' itemIndex))
                (with_default (- 1) (nparam env ''ttl'' itemIndex))
                (Some keyType)
                (with_default True (bparam env ''valueIsJSON'' itemIndex))
                (Some (with_default ''always'' (sparam env ''setMode'' itemIndex)))) (\<lambda>setResult.
     push \<lparr> json = obj_set (json it) ''redis_result'' (SetResult_json setResult),
            pairedItem = Some itemIndex \<rparr>))))"

text \<open>
  The \<open>json.set\<close> branch calls \<open>setValue\<close> with two arguments fewer: the set mode lands in
  the position of the type, and \<open>valueIsJSON\<close> and \<open>setMode\<close> stay undefined.
\<close>

definition op_json_set :: "host_env \<Rightarrow> nat \<Rightarrow> item \<Rightarrow> unit eff" where
  "op_json_set env itemIndex it =
     then_do (required (sparam env ''key'' itemIndex)) (\<lambda>keySet.
     then_do (required (vparam env ''value'' itemIndex)) (\<lambda>v.
     then_do (setValue env keySet v
                (with_default False (bparam env ''expire'' itemIndex))
                (with_default (- 1) (nparam env ''ttl'' itemIndex))
                (Some (with_default ''always'' (sparam env ''setMode'' itemIndex)))
                False None) (\<lambda>setResult.
     push \<lparr> json = obj_set (json it) ''redis_result'' (SetResult_json setResult),
            pairedItem = Some itemIndex \<rparr>)))"

definition op_incr :: "host_env \<Rightarrow> nat \<Rightarrow> unit eff" where
  "op_incr env itemIndex =
     then_do (required (sparam env ''key'' itemIndex)) (\<lambda>keyIncr.
     then_do (client_call env (Incr keyIncr)) (\<lambda>incrementVal.
     then_do
       (let expire = with_default False (bparam env ''expire'' itemIndex);
            ttl = with_default (- 1) (nparam env ''ttl'' itemIndex)
        in if expire \<and> ttl > 0
           then then_do (client_call env (Expire keyIncr ttl)) (\<lambda>_. ret ())
           else ret ()) (\<lambda>_.
     push \<lparr> json = [(keyIncr, incrementVal)], pairedItem = None \<rparr>)))"

definition op_publish :: "host_env \<Rightarrow> nat \<Rightarrow> item \<Rightarrow> unit eff" where
  "op_publish env itemIndex it =
     then_do (required (sparam env ''channel'' itemIndex)) (\<lambda>channel.
     then_do (required (sparam env ''messageData'' itemIndex)) (\<lambda>messageData.
     then_do (client_call env (Publish channel messageData)) (\<lambda>_.
     push it)))"

definition op_push :: "host_env \<Rightarrow> nat \<Rightarrow> item \<Rightarrow> unit eff" where
  "op_push env itemIndex it =
     then_do (required (sparam env ''list'' itemIndex)) (\<lambda>redisList.
     then_do (required (sparam env ''messageData'' itemIndex)) (\<lambda>messageData.
     then_do (client_call env
                (if with_default False (bparam env ''tail'' itemIndex)
                 then RPush redisList messageData else LPush redisList messageData)) (\<lambda>_.
     push it)))"

definition op_pop :: "host_env \<Rightarrow> nat \<Rightarrow> unit eff" where
  "op_pop env itemIndex =
     then_do (required (sparam env ''list'' itemIndex)) (\<lambda>redisList.
     then_do (client_call env
                (if with_default False (bparam env ''tail'' itemIndex)
                 then RPop redisList else LPop redisList)) (\<lambda>v.
     then_do (set_property env itemIndex
                (with_default ''propertyName'' (sparam env ''propertyName'' itemIndex))
                (if truthy v then parse_or_raw env v else v)) (\<lambda>j.
     push \<lparr> json = j, pairedItem = Some itemIndex \<rparr>)))"

definition op_exists :: "host_env \<Rightarrow> nat \<Rightarrow> unit eff" where
  "op_exists env itemIndex =
     then_do (required (sparam env ''keys'' itemIndex)) (\<lambda>keys.
     then_do (client_call env (Exists (tokens keys))) (\<lambda>existsCount.
     push \<lparr> json = [(''exists'', existsCount), (''keys'', JArr (map JStr (tokens keys)))],
            pairedItem = None \<rparr>))"

fun mget_result :: "jval \<Rightarrow> string list \<Rightarrow> nat \<Rightarrow> IDataObject \<Rightarrow> error + IDataObject" where
  "mget_result vals [] index result = Inr result"
| "mget_result vals (k # ks) index result =
     (case get_index vals index of
        Inl e \<Rightarrow> Inl e
      | Inr x \<Rightarrow> mget_result vals ks (Suc index) (obj_set result k x))"

definition op_mget :: "host_env \<Rightarrow> nat \<Rightarrow> unit eff" where
  "op_mget env itemIndex =
     then_do (required (sparam env ''keys'' itemIndex)) (\<lambda>keys.
     then_do (client_call env (MGet (tokens keys))) (\<lambda>vals.
     then_do (lift (mget_result vals (tokens keys) 0 [])) (\<lambda>result.
     push \<lparr> json = result, pairedItem = None \<rparr>)))"

text \<open>The loop \<open>for (i = 0; i < pairs.length; i += 2)\<close> over an even number of tokens.\<close>

fun pairs_of :: "'a list \<Rightarrow> ('a \<times> 'a) list" where
  "pairs_of (x # y # rest) = (x, y) # pairs_of rest"
| "pairs_of _ = []"

definition op_mset :: "host_env \<Rightarrow> nat \<Rightarrow> item \<Rightarrow> unit eff" where
  "op_mset env itemIndex it =
     then_do (required (sparam env ''keyValuePairs'' itemIndex)) (\<lambda>keyValuePairs.
       let pairs = tokens keyValuePairs in
       if length pairs mod 2 \<noteq> 0
       then throw (NodeOperationError ''Key-value pairs must be even number of arguments'' None)
       else
         then_do (client_call env
                    (MSet (foldl (\<lambda>msetObj (k, x). obj_set msetObj k x) [] (pairs_of pairs)))) (\<lambda>_.
         push it))"

definition op_scan :: "host_env \<Rightarrow> nat \<Rightarrow> unit eff" where
  "op_scan env itemIndex =
     then_do (required (nparam env ''cursor'' itemIndex)) (\<lambda>cursor.
     then_do (required (sparam env ''pattern'' itemIndex)) (\<lambda>pattern.
     then_do (required (nparam env ''count'' itemIndex)) (\<lambda>count.
     then_do (client_call env (Scan cursor pattern count)) (\<lambda>result.
     then_do (lift (get_prop result ''cursor'')) (\<lambda>c.
     then_do (lift (get_prop result ''keys'')) (\<lambda>ks.
     push \<lparr> json = [(''cursor'', c), (''keys'', ks)], pairedItem = None \<rparr>))))))"

text \<open>
  The handlers that read one key, make one call and report \<open>{name: key, field: reply}\<close>:
  ttl, persist, strlen, llen, scard, zcard, hlen, hkeys, hvals.
\<close>

definition op_key_reply ::
  "host_env \<Rightarrow> nat \<Rightarrow> string \<Rightarrow> (string \<Rightarrow> call) \<Rightarrow> string \<Rightarrow> unit eff" where
  "op_key_reply env itemIndex name mk field =
     then_do (required (sparam env name itemIndex)) (\<lambda>k.
     then_do (client_call env (mk k)) (\<lambda>reply.
     push \<lparr> json = [(name, JStr k), (field, reply)], pairedItem = None \<rparr>))"

definition op_expireat :: "host_env \<Rightarrow> nat \<Rightarrow> unit eff" where
  "op_expireat env itemIndex =
     then_do (required (sparam env ''key'' itemIndex)) (\<lambda>k.
     then_do (required (nparam env ''timestamp'' itemIndex)) (\<lambda>timestamp.
     then_do (client_call env (ExpireAt k timestamp)) (\<lambda>result.
     push \<lparr> json = [(''key'', JStr k), (''set'', result)], pairedItem = None \<rparr>)))"

definition op_getset :: "host_env \<Rightarrow> nat \<Rightarrow> unit eff" where
  "op_getset env itemIndex =
     then_do (required (sparam env ''key'' itemIndex)) (\<lambda>k.
     then_do (required (sparam env ''value'' itemIndex)) (\<lambda>v.
     then_do (required (sparam env ''propertyName'' itemIndex)) (\<lambda>propertyName.
     then_do (client_call env (GetSet k v)) (\<lambda>oldValue.
     push \<lparr> json = obj_set [] propertyName oldValue, pairedItem = Some itemIndex \<rparr>))))"

definition op_append :: "host_env \<Rightarrow> nat \<Rightarrow> unit eff" where
  "op_append env itemIndex =
     then_do (required (sparam env ''key'' itemIndex)) (\<lambda>k.
     then_do (required (sparam env ''value'' itemIndex)) (\<lambda>v.
     then_do (client_call env (Append k v)) (\<lambda>newLength.
     push \<lparr> json = [(''key'', JStr k), (''newLength'', newLength)], pairedItem = None \<rparr>)))"

text \<open>blpop and brpop differ in the client method only.\<close>

definition op_bpop :: "host_env \<Rightarrow> nat \<Rightarrow> (string \<Rightarrow> rat \<Rightarrow> call) \<Rightarrow> unit eff" where
  "op_bpop env itemIndex mk =
     then_do (required (sparam env ''list'' itemIndex)) (\<lambda>redisList.
     then_do (required (nparam env ''timeout'' itemIndex)) (\<lambda>timeout.
     then_do (required (sparam env ''propertyName'' itemIndex)) (\<lambda>propertyName.
     then_do (client_call env (mk redisList timeout)) (\<lambda>result.
       if truthy result then
         then_do (lift (get_prop result ''element'')) (\<lambda>element.
         then_do (lift (get_prop result ''key'')) (\<lambda>k.
         push \<lparr> json = obj_set (obj_set [] propertyName (parse_or_raw env element)) ''list'' k,
                pairedItem = Some itemIndex \<rparr>))
       else push \<lparr> json = obj_set [] propertyName JNull, pairedItem = Some itemIndex \<rparr>))))"

text \<open>sadd, srem and zrem: a key, a space-delimited member list, one call.\<close>

definition op_members ::
  "host_env \<Rightarrow> nat \<Rightarrow> string \<Rightarrow> (string \<Rightarrow> string list \<Rightarrow> call) \<Rightarrow> string \<Rightarrow> unit eff" where
  "op_members env itemIndex name mk field =
     then_do (required (sparam env name itemIndex)) (\<lambda>k.
     then_do (required (sparam env ''members'' itemIndex)) (\<lambda>members.
     then_do (client_call env (mk k (tokens members))) (\<lambda>reply.
     push \<lparr> json = [(name, JStr k), (field, reply),
                    (''members'', JArr (map JStr (tokens members)))],
            pairedItem = None \<rparr>)))"

definition op_sismember :: "host_env \<Rightarrow> nat \<Rightarrow> unit eff" where
  "op_sismember env itemIndex =
     then_do (required (sparam env ''set'' itemIndex)) (\<lambda>k.
     then_do (required (sparam env ''member'' itemIndex)) (\<lambda>member.
     then_do (client_call env (SIsMember k member)) (\<lambda>isMember.
     push \<lparr> json = [(''set'', JStr k), (''member'', JStr member), (''isMember'', isMember)],
            pairedItem = None \<rparr>)))"

definition op_zadd :: "host_env \<Rightarrow> nat \<Rightarrow> unit eff" where
  "op_zadd env itemIndex =
     then_do (required (sparam env ''sortedSet'' itemIndex)) (\<lambda>sortedSet.
     then_do (required (sparam env ''scoreMembers'' itemIndex)) (\<lambda>scoreMembers.
       let pairs = tokens scoreMembers in
       if length pairs mod 2 \<noteq> 0
       then throw (NodeOperationError ''Score-member pairs must be even number of arguments'' None)
       else
         (let members = map (\<lambda>(score, x). (parseFloat score, x)) (pairs_of pairs) in
          then_do (client_call env (ZAdd sortedSet members)) (\<lambda>added.
          push \<lparr> json = [(''sortedSet'', JStr sortedSet), (''added'', added),
                         (''members'',
                          JArr (map (\<lambda>(score, x). JObj [(''score'', JNum score), (''value'', JStr x)])
                                    members))],
                 pairedItem = None \<rparr>))))"

definition op_zrange :: "host_env \<Rightarrow> nat \<Rightarrow> unit eff" where
  "op_zrange env itemIndex =
     then_do (required (sparam env ''sortedSet'' itemIndex)) (\<lambda>sortedSet.
     then_do (required (nparam env ''start'' itemIndex)) (\<lambda>start.
     then_do (required (nparam env ''stop'' itemIndex)) (\<lambda>stop.
     then_do (required (bparam env ''withScores'' itemIndex)) (\<lambda>withScores.
     then_do (client_call env
                (if withScores then ZRangeWithScores sortedSet start stop
                 else ZRange sortedSet start stop)) (\<lambda>result.
     push \<lparr> json = [(''sortedSet'', JStr sortedSet), (''result'', result)],
            pairedItem = None \<rparr>)))))"

definition op_hexists :: "host_env \<Rightarrow> nat \<Rightarrow> unit eff" where
  "op_hexists env itemIndex =
     then_do (required (sparam env ''hash'' itemIndex)) (\<lambda>h.
     then_do (required (sparam env ''field'' itemIndex)) (\<lambda>field.
     then_do (client_call env (HExists h field)) (\<lambda>ex.
     push \<lparr> json = [(''hash'', JStr h), (''field'', JStr field), (''exists'', ex)],
            pairedItem = None \<rparr>)))"

definition op_eval :: "host_env \<Rightarrow> nat \<Rightarrow> unit eff" where
  "op_eval env itemIndex =
     then_do (required (sparam env ''script'' itemIndex)) (\<lambda>script.
     then_do (client_call env
                (Eval script
                   (tokens (with_default [] (sparam env ''keys'' itemIndex)))
                   (tokens (with_default [] (sparam env ''args'' itemIndex))))) (\<lambda>result.
     push \<lparr> json = [(''result'', (case result of JBig z \<Rightarrow> JNum (Fin (of_int z)) | _ \<Rightarrow> result))],
            pairedItem = None \<rparr>))"

subsection \<open>The JSON document handlers and their own loops\<close>

definition quit_and_throw :: "host_env \<Rightarrow> error \<Rightarrow> 'a eff" where
  "quit_and_throw env e = then_do (client_call env Quit) (\<lambda>_. throw e)"

definition error_item :: "error \<Rightarrow> nat \<Rightarrow> item" where
  "error_item e i = \<lparr> json = [(''error'', JStr (error_message e))], pairedItem = Some i \<rparr>"

definition jsonset_item :: "host_env \<Rightarrow> nat \<Rightarrow> unit eff" where
  "jsonset_item env i =
     then_do (required (sparam env ''key'' i)) (\<lambda>k.
     then_do (required (sparam env ''value'' i)) (\<lambda>v.
       let path = with_default ''$'' (sparam env ''path'' i);
           setMode = with_default ''default'' (sparam env ''setMode'' i)
       in (case JSON_parse env v of
             Inl e \<Rightarrow> throw (NodeOperationError (''Invalid JSON value: '' @ error_message e) (Some i))
           | Inr jsonValue \<Rightarrow>
               then_do (client_call env
                          (SendCommand
                             ([''JSON.SET'', k, path, JSON_stringify env jsonValue]
                              @ (if setMode = ''NX'' then [''NX'']
                                 else if setMode = ''XX'' then [''XX''] else [])))) (\<lambda>result.
               push \<lparr> json = [(''key'', JStr k), (''path'', JStr path),
                              (''result'', if truthy result then result else JStr ''OK''),
                              (''success'', JBool (result \<noteq> JNull))],
                      pairedItem = Some i \<rparr>))))"

fun jsonset_loop :: "host_env \<Rightarrow> nat list \<Rightarrow> unit eff" where
  "jsonset_loop env [] st = (Inr (), st)"
| "jsonset_loop env (i # rest) st =
     (case jsonset_item env i st of
        (Inr _, st') \<Rightarrow> jsonset_loop env rest st'
      | (Inl e, st') \<Rightarrow>
          if continueOnFail env
          then jsonset_loop env rest (st'\<lparr>returnItems := returnItems st' @ [error_item e i]\<rparr>)
          else quit_and_throw env (rethrow e (Some i)) st')"

definition format_arg :: "host_env \<Rightarrow> string \<Rightarrow> jval \<Rightarrow> string list" where
  "format_arg env flag v = (if truthy v then [flag, js_string (number_toString env) v] else [])"

definition jsonget_item :: "host_env \<Rightarrow> nat \<Rightarrow> unit eff" where
  "jsonget_item env i =
     then_do (required (sparam env ''key'' i)) (\<lambda>k.
       let path = with_default ''$'' (sparam env ''path'' i);
           options = with_default (JObj []) (vparam env ''options'' i)
       in then_do (lift (get_prop options ''indent'')) (\<lambda>indent.
          then_do (lift (get_prop options ''newline'')) (\<lambda>newline.
          then_do (lift (get_prop options ''space'')) (\<lambda>space.
          then_do (client_call env
                     (SendCommand
                        ([''JSON.GET'', k] @ (if path \<noteq> [] then [path] else [])
                         @ format_arg env ''INDENT'' indent
                         @ format_arg env ''NEWLINE'' newline
                         @ format_arg env ''SPACE'' space))) (\<lambda>result.
          push \<lparr> json = [(''key'', JStr k), (''path'', JStr path),
                         (''value'', if truthy result then parse_or_raw env result else JNull),
                         (''exists'', JBool (result \<noteq> JNull))],
                 pairedItem = Some i \<rparr>)))))"

text \<open>
  The error record of the jsonget branch carries the item's key too; reading that key
  again is a parameter lookup, which can raise inside the handler of the exception.
\<close>

definition jsonget_error_item :: "error \<Rightarrow> string \<Rightarrow> nat \<Rightarrow> item" where
  "jsonget_error_item e k i =
     \<lparr> json = [(''error'', JStr (error_message e)), (''key'', JStr k)], pairedItem = Some i \<rparr>"

fun jsonget_loop :: "host_env \<Rightarrow> nat list \<Rightarrow> unit eff" where
  "jsonget_loop env [] st = (Inr (), st)"
| "jsonget_loop env (i # rest) st =
     (case jsonget_item env i st of
        (Inr _, st') \<Rightarrow> jsonget_loop env rest st'
      | (Inl e, st') \<Rightarrow>
          if continueOnFail env then
            (case sparam env ''key'' i of
               None \<Rightarrow> (Inl (Error ''Could not get parameter''), st')
             | Some k \<Rightarrow>
                 jsonget_loop env rest
                   (st'\<lparr>returnItems := returnItems st' @ [jsonget_error_item e k i]\<rparr>))
          else quit_and_throw env (rethrow e (Some i)) st')"

section \<open>The dispatcher (RedisEnhanced.node.ts, execute)\<close>

definition per_item_ops :: "string list" where
  "per_item_ops =
     [''delete'', ''get'', ''jsonget'', ''jsonset'', ''keys'', ''set'', ''incr'', ''publish'',
      ''push'', ''pop'', ''exists'', ''mget'', ''mset'', ''scan'', ''ttl'', ''persist'',
      ''expireat'', ''getset'', ''append'', ''strlen'', ''blpop'', ''brpop'', ''llen'', ''sadd'',
      ''srem'', ''sismember'', ''scard'', ''zadd'', ''zrange'', ''zrem'', ''zcard'', ''hlen'',
      ''hkeys'', ''hvals'', ''hexists'', ''eval'']"

text \<open>The body of the \<open>try\<close> block of the item loop: the chain of branches, in source order.\<close>

definition item_body :: "host_env \<Rightarrow> string \<Rightarrow> nat \<Rightarrow> item \<Rightarrow> unit eff" where
  "item_body env op_id itemIndex it =
     (if op_id = ''delete'' then op_delete env itemIndex it
      else if op_id = ''get'' then op_get env itemIndex
      else if op_id = ''jsonset'' then jsonset_loop env [0..<length (getInputData env)]
      else if op_id = ''jsonget'' then jsonget_loop env [0..<length (getInputData env)]
      else if op_id = ''keys'' then op_keys env itemIndex
      else if op_id = ''set'' then op_set env itemIndex it
      else if op_id = ''json.set'' then op_json_set env itemIndex it
      else if op_id = ''incr'' then op_incr env itemIndex
      else if op_id = ''publish'' then op_publish env itemIndex it
      else if op_id = ''push'' then op_push env itemIndex it
      else if op_id = ''pop'' then op_pop env itemIndex
      else if op_id = ''exists'' then op_exists env itemIndex
      else if op_id = ''mget'' then op_mget env itemIndex
      else if op_id = ''mset'' then op_mset env itemIndex it
      else if op_id = ''scan'' then op_scan env itemIndex
      else if op_id = ''ttl'' then op_key_reply env itemIndex ''key'' Ttl ''ttl''
      else if op_id = ''persist'' then op_key_reply env itemIndex ''key'' Persist ''persisted''
      else if op_id = ''expireat'' then op_expireat env itemIndex
      else if op_id = ''getset'' then op_getset env itemIndex
      else if op_id = ''append'' then op_append env itemIndex
      else if op_id = ''strlen'' then op_key_reply env itemIndex ''key'' StrLen ''length''
      else if op_id = ''blpop'' then op_bpop env itemIndex BlPop
      else if op_id = ''brpop'' then op_bpop env itemIndex BrPop
      else if op_id = ''llen'' then op_key_reply env itemIndex ''list'' LLen ''length''
      else if op_id = ''sadd'' then op_members env itemIndex ''set'' SAddMembers ''added''
      else if op_id = ''srem'' then op_members env itemIndex ''set'' SRem ''removed''
      else if op_id = ''sismember'' then op_sismember env itemIndex
      else if op_id = ''scard'' then op_key_reply env itemIndex ''set'' SCard ''cardinality''
      else if op_id = ''zadd'' then op_zadd env itemIndex
      else if op_id = ''zrange'' then op_zrange env itemIndex
      else if op_id = ''zrem'' then op_members env itemIndex ''sortedSet'' ZRem ''removed''
      else if op_id = ''zcard'' then op_key_reply env itemIndex ''sortedSet'' ZCard ''cardinality''
      else if op_id = ''hlen'' then op_key_reply env itemIndex ''hash'' HLen ''length''
      else if op_id = ''hkeys'' then op_key_reply env itemIndex ''hash'' HKeys ''keys''
      else if op_id = ''hvals'' then op_key_reply env itemIndex ''hash'' HVals ''values''
      else if op_id = ''hexists'' then op_hexists env itemIndex
      else if op_id = ''eval'' then op_eval env itemIndex
      else ret ())"

text \<open>
  The item loop with its \<open>catch\<close>: under \<open>continueOnFail\<close> an error record and the next
  item, otherwise \<open>quit\<close> and the failure rethrown as a NodeOperationError.
\<close>

fun item_loop :: "host_env \<Rightarrow> string \<Rightarrow> (nat \<times> item) list \<Rightarrow> unit eff" where
  "item_loop env op_id [] st = (Inr (), st)"
| "item_loop env op_id ((itemIndex, it) # rest) st =
     (case item_body env op_id itemIndex it st of
        (Inr _, st') \<Rightarrow> item_loop env op_id rest st'
      | (Inl e, st') \<Rightarrow>
          if continueOnFail env
          then item_loop env op_id rest
                 (st'\<lparr>returnItems := returnItems st' @ [error_item e itemIndex]\<rparr>)
          else quit_and_throw env (rethrow e (Some itemIndex)) st')"

definition info_branch :: "host_env \<Rightarrow> unit eff" where
  "info_branch env st =
     (case then_do (client_call env Info) (\<lambda>result.
           then_do (lift (case result of
                            JStr s \<Rightarrow> convertInfoToObject s
                          | _ \<Rightarrow> Inl (TypeError ''stringData.split is not a function''))) (\<lambda>obj.
           push \<lparr> json = obj, pairedItem = None \<rparr>)) st of
        (Inr _, st') \<Rightarrow> (Inr (), st')
      | (Inl e, st') \<Rightarrow>
          if continueOnFail env
          then push \<lparr> json = [(''error'', JStr (error_message e))], pairedItem = None \<rparr> st'
          else quit_and_throw env (rethrow e None) st')"

definition enumerate_items :: "item list \<Rightarrow> (nat \<times> item) list" where
  "enumerate_items items = zip [0..<length items] items"

definition initial_state :: run_state where
  "initial_state = \<lparr> calls = [], returnItems = [] \<rparr>"

definition execute :: "host_env \<Rightarrow> (error + item list list) \<times> run_state" where
  "execute env =
     then_do (lift (getCredentials env)) (\<lambda>credentials.
     then_do (client_call env (Connect (setupRedisClient credentials))) (\<lambda>_.
     then_do (client_call env Ping) (\<lambda>_.
     then_do (required (sparam env ''operation'' 0)) (\<lambda>operation.
     then_do
       (if operation = ''info'' then info_branch env
        else if operation \<in> set per_item_ops
        then item_loop env operation (enumerate_items (getInputData env))
        else ret ()) (\<lambda>_.
     then_do (client_call env Quit) (\<lambda>_.
     (\<lambda>st. (Inr [returnItems st], st)))))))) initial_state"

section \<open>Reference predicates and example runs\<close>

definition is_number :: "jval \<Rightarrow> bool" where
  "is_number v = (case v of JNum _ \<Rightarrow> True | _ \<Rightarrow> False)"

text \<open>The specification's wording of the numeric rule: only digits, and at most one decimal point.\<close>

definition digits_and_at_most_one_point :: "string \<Rightarrow> bool" where
  "digits_and_at_most_one_point v =
     (list_all (\<lambda>c. is_digit c \<or> c = CHR ''.'') v \<and> count_list v CHR ''.'' \<le> 1)"

text \<open>
  The number of the leading decimal literal of a string of digits and points: the digits
  before the first point and those between the first and the second point; NaN when
  there is no digit in either place.
\<close>

definition leading_decimal :: "string \<Rightarrow> jnum" where
  "leading_decimal v =
     (let ip = takeWhile is_digit v;
          fp = takeWhile is_digit (drop 1 (dropWhile is_digit v))
      in if ip = [] \<and> fp = [] then NaN
         else Fin (of_nat (digits_val 0 (ip @ fp)) / 10 ^ length fp))"

definition empty_item :: item where
  "empty_item = \<lparr> json = [], pairedItem = None \<rparr>"

text \<open>
  A run with local credentials, no parameters, no input items and a store that answers
  \<open>OK\<close> to every call. The example runs below change the fields they need. Its
  \<open>JSON_parse\<close> rejects its argument: the examples hand it only texts that are not JSON.
\<close>

definition base_env :: host_env where
  "base_env =
     \<lparr> getCredentials = Inr \<lparr> host = ''localhost'', port = 6379, database = 0,
                               user = None, password = None, ssl = None \<rparr>,
       sparam = (\<lambda>name i. None),
       nparam = (\<lambda>name i. None),
       bparam = (\<lambda>name i. None),
       vparam = (\<lambda>name i. None),
       continueOnFail = False,
       getInputData = [],
       respond = (\<lambda>history c. Inr (JStr ''OK'')),
       JSON_parse = (\<lambda>s. Inl (Error ''Unexpected token'')),
       JSON_stringify = (\<lambda>v. []),
       number_toString = (\<lambda>n. []),
       lodash_set = obj_set \<rparr>"

definition pairs_env :: host_env where
  "pairs_env =
     base_env\<lparr> sparam := (\<lambda>name i.
                  if name = ''keyValuePairs'' then Some ''key1 value1 key2''
                  else if name = ''sortedSet'' then Some ''board''
                  else if name = ''scoreMembers'' then Some ''1 alice 2''
                  else None) \<rparr>"

definition pairs_isolated_env :: host_env where
  "pairs_isolated_env = pairs_env\<lparr> continueOnFail := True \<rparr>"

definition nx_env :: host_env where
  "nx_env =
     base_env\<lparr> respond := (\<lambda>history c.
                  case c of Set _ _ _ \<Rightarrow> Inr JNull | _ \<Rightarrow> Inr (JStr ''OK'')) \<rparr>"

definition unknown_op_env :: host_env where
  "unknown_op_env =
     base_env\<lparr> sparam := (\<lambda>name i. if name = ''operation'' then Some ''json.set'' else None),
               getInputData := [empty_item] \<rparr>"

text \<open>
  Runs of the jsonget operation on the key \<open>k\<close>. In \<open>jsonget_failing_env\<close> the store
  rejects the JSON.GET command, and a client that has been closed rejects every later
  call; \<open>jsonget_isolated_env\<close> is the same run with \<open>continueOnFail\<close> set; in
  \<open>jsonget_two_items_env\<close> there are two input items and the store answers null (no such key).
\<close>

definition jsonget_params :: "string \<Rightarrow> nat \<Rightarrow> string option" where
  "jsonget_params name i =
     (if name = ''operation'' then Some ''jsonget''
      else if name = ''key'' then Some ''k''
      else None)"

definition jsonget_failing_env :: host_env where
  "jsonget_failing_env =
     base_env\<lparr> sparam := jsonget_params,
               getInputData := [empty_item],
               respond := (\<lambda>history c.
                  if Quit \<in> set history then Inl (Error ''The client is closed'')
                  else (case c of
                          SendCommand _ \<Rightarrow> Inl (Error ''ERR unknown command'')
                        | _ \<Rightarrow> Inr (JStr ''OK''))) \<rparr>"

definition jsonget_isolated_env :: host_env where
  "jsonget_isolated_env = jsonget_failing_env\<lparr> continueOnFail := True \<rparr>"

definition jsonget_two_items_env :: host_env where
  "jsonget_two_items_env =
     base_env\<lparr> sparam := jsonget_params,
               getInputData := [empty_item, empty_item],
               respond := (\<lambda>history c.
                  case c of SendCommand _ \<Rightarrow> Inr JNull | _ \<Rightarrow> Inr (JStr ''OK'')) \<rparr>"

text \<open>A run of the delete operation on the key \<open>k\<close>, in which the store rejects \<open>del\<close>.\<close>

definition delete_failing_env :: host_env where
  "delete_failing_env =
     base_env\<lparr> sparam := (\<lambda>name i.
                  if name = ''operation'' then Some ''delete''
                  else if name = ''key'' then Some ''k''
                  else None),
               getInputData := [empty_item, empty_item],
               respond := (\<lambda>history c.
                  case c of Del _ \<Rightarrow> Inl (Error ''READONLY'') | _ \<Rightarrow> Inr (JStr ''OK'')) \<rparr>"

text \<open>
  A run of the jsonset operation under isolation: the value \<open>1\<close> is JSON (its
  \<open>JSON_parse\<close> is right on that text, which is the only one it is given), and the store
  rejects the JSON.SET command.
\<close>

definition jsonset_isolated_env :: host_env where
  "jsonset_isolated_env =
     base_env\<lparr> sparam := (\<lambda>name i.
                  if name = ''operation'' then Some ''jsonset''
                  else if name = ''key'' then Some ''k''
                  else if name = ''value'' then Some ''1''
                  else None),
               continueOnFail := True,
               getInputData := [empty_item],
               respond := (\<lambda>history c.
                  case c of
                    SendCommand _ \<Rightarrow> Inl (Error ''ERR unknown command'')
                  | _ \<Rightarrow> Inr (JStr ''OK'')),
               JSON_parse := (\<lambda>s. if s = ''1'' then Inr (JNum (Fin 1))
                                   else Inl (Error ''Unexpected token'')),
               JSON_stringify := (\<lambda>v. ''1'') \<rparr>"

definition local_client :: client_options where
  "local_client =
     \<lparr> socket_host = ''localhost'', socket_port = 6379, socket_tls = False,
       opt_database = 0, opt_username = None, opt_password = None \<rparr>"


text \<open>
  Predicates on computations, for the branches that have no loop of their own: a quiet
  computation adds nothing to the output and makes neither \<open>connect\<close> nor \<open>quit\<close>; a
  handler adds exactly one record when it succeeds and none when it fails; a loop closes
  once when it ends either without a connection call or with one \<open>quit\<close> as its last call.
\<close>

definition connection_call :: "call \<Rightarrow> bool" where
  "connection_call c = (case c of Connect _ \<Rightarrow> True | Quit \<Rightarrow> True | _ \<Rightarrow> False)"

definition no_connection_call :: "call list \<Rightarrow> bool" where
  "no_connection_call cs = (filter connection_call cs = [])"

definition quiet :: "'a eff \<Rightarrow> bool" where
  "quiet m = (\<forall>st. returnItems (snd (m st)) = returnItems st
                  \<and> (\<exists>cs. calls (snd (m st)) = calls st @ cs \<and> no_connection_call cs))"

definition one_record :: "unit eff \<Rightarrow> bool" where
  "one_record m =
     (\<forall>st. (\<exists>cs. calls (snd (m st)) = calls st @ cs \<and> no_connection_call cs)
          \<and> (case fst (m st) of
                Inl _ \<Rightarrow> returnItems (snd (m st)) = returnItems st
              | Inr _ \<Rightarrow> (\<exists>x. returnItems (snd (m st)) = returnItems st @ [x])))"

definition closes_once :: "run_state \<Rightarrow> (error + unit) \<times> run_state \<Rightarrow> bool" where
  "closes_once st res =
     (case res of
        (Inr _, st') \<Rightarrow> (\<exists>cs. calls st' = calls st @ cs \<and> no_connection_call cs)
      | (Inl _, st') \<Rightarrow> (\<exists>cs. calls st' = calls st @ cs @ [Quit] \<and> no_connection_call cs))"

section \<open>The report parser: numeric coercion\<close>

text \<open>
  C6, as the specification words it, fails: \<open>6.2.14\<close> has two decimal points and is
  still turned into a number.
\<close>

theorem getParsedValue_two_points_counterexample:
  "is_number (getParsedValue ''6.2.14'') \<and> \<not> digits_and_at_most_one_point ''6.2.14''"
  by code_simp

lemma digit_or_dot_not_space: "is_digit c \<or> c = CHR ''.'' \<Longrightarrow> \<not> is_space c"
  by (auto simp add: is_digit_def is_space_def)

lemma digit_or_dot_not_sign:
  "is_digit c \<or> c = CHR ''.'' \<Longrightarrow> c \<noteq> CHR ''-'' \<and> c \<noteq> CHR ''+'' \<and> c \<noteq> CHR ''I''
     \<and> c \<noteq> CHR ''e'' \<and> c \<noteq> CHR ''E''"
  by (auto simp add: is_digit_def)

lemma exponent_of_dots:
  assumes "list_all (\<lambda>c. is_digit c \<or> c = CHR ''.'') r"
  shows "exponent_of (dropWhile is_digit r) = 0"
proof (cases "dropWhile is_digit r")
  case Nil
  then show ?thesis by (simp add: exponent_of_def del: dropWhile_eq_Nil_conv)
next
  case (Cons c r1)
  then have "c \<in> set r" by (metis list.set_intros(1) set_dropWhileD)
  then have "is_digit c \<or> c = CHR ''.''" using assms by (simp add: list_all_iff)
  then show ?thesis using Cons digit_or_dot_not_sign [of c] by (simp add: exponent_of_def)
qed

lemma dropWhile_digit_dot:
  assumes "list_all (\<lambda>c. is_digit c \<or> c = CHR ''.'') r" and "dropWhile is_digit r \<noteq> []"
  shows "hd (dropWhile is_digit r) = CHR ''.''"
proof -
  have a: "hd (dropWhile is_digit r) \<in> set r"
    using assms(2) by (metis hd_in_set set_dropWhileD)
  have b: "\<not> is_digit (hd (dropWhile is_digit r))"
    using assms(2) hd_dropWhile by blast
  show ?thesis using a b assms(1) by (auto simp add: list_all_iff)
qed

lemma parseFloat_numeric_like:
  assumes "numeric_like v"
  shows "parseFloat v = leading_decimal v"
proof -
  obtain c r where v: "v = c # r" using assms by (cases v) (simp_all add: numeric_like_def)
  have all: "list_all (\<lambda>c. is_digit c \<or> c = CHR ''.'') v"
    using assms by (simp add: numeric_like_def)
  have c: "is_digit c \<or> c = CHR ''.''" using all v by simp
  have p: "parseFloat v = unsigned_literal v"
    using digit_or_dot_not_space [OF c] digit_or_dot_not_sign [OF c]
    by (simp add: parseFloat_def v)
  have inf: "\<not> starts_with ''Infinity'' v"
    using digit_or_dot_not_sign [OF c] by (auto simp add: starts_with_def v)
  let ?r1 = "dropWhile is_digit v"
  have tl_all: "list_all (\<lambda>c. is_digit c \<or> c = CHR ''.'') (tl ?r1)"
    using all by (metis (no_types, lifting) list_all_iff list.set_sel(2) set_dropWhileD tl_Nil)
  have e1: "exponent_of ?r1 = 0" by (rule exponent_of_dots [OF all])
  have e2: "exponent_of (dropWhile is_digit (tl ?r1)) = 0" by (rule exponent_of_dots [OF tl_all])
  show ?thesis
  proof (cases "?r1 = []")
    case True
    then show ?thesis
      using p inf e1
      by (simp add: unsigned_literal_def leading_decimal_def Let_def scale10_def
          del: dropWhile_eq_Nil_conv)
  next
    case False
    then have dot: "hd ?r1 = CHR ''.''" using dropWhile_digit_dot [OF all] by blast
    show ?thesis
      using p inf e2 False dot
      by (simp add: unsigned_literal_def leading_decimal_def Let_def scale10_def drop_Suc
          del: dropWhile_eq_Nil_conv)
  qed
qed

text \<open>
  C6, amended: a value is parsed as a floating-point number if and only if it is not empty
  and consists only of digits and decimal points, however many points there are; the
  number is what \<open>parseFloat\<close> reads from it, which is the value of its leading decimal
  literal, and every other value is kept as a string.
\<close>

theorem getParsedValue_numeric_iff:
  "(is_number (getParsedValue v) \<longleftrightarrow> v \<noteq> [] \<and> (\<forall>c\<in>set v. is_digit c \<or> c = CHR ''.''))
   \<and> (is_number (getParsedValue v) \<longrightarrow>
        getParsedValue v = JNum (parseFloat v) \<and> parseFloat v = leading_decimal v)
   \<and> (\<not> is_number (getParsedValue v) \<longrightarrow> getParsedValue v = JStr v)"
proof -
  have "numeric_like v \<Longrightarrow> parseFloat v = leading_decimal v"
    by (rule parseFloat_numeric_like)
  then show ?thesis
    by (auto simp add: getParsedValue_def numeric_like_def is_number_def list_all_iff)
qed

theorem getParsedValue_numeric_iff_witness:
  "is_number (getParsedValue ''3.14'') \<and> getParsedValue ''3.14'' = JNum (Fin (157 / 50))
   \<and> getParsedValue ''v1.2'' = JStr ''v1.2''"
proof -
  have a: "''3.14'' \<noteq> [] \<and> (\<forall>c\<in>set ''3.14''. is_digit c \<or> c = CHR ''.'')"
    by (simp add: is_digit_def)
  have n: "is_number (getParsedValue ''3.14'')"
    using getParsedValue_numeric_iff [of "''3.14''"] a by blast
  have g: "getParsedValue ''3.14'' = JNum (parseFloat ''3.14'')
           \<and> parseFloat ''3.14'' = leading_decimal ''3.14''"
    using getParsedValue_numeric_iff [of "''3.14''"] n by blast
  have l: "leading_decimal ''3.14'' = Fin (157 / 50)"
    by code_simp
  have c: "\<not> (''v1.2'' \<noteq> [] \<and> (\<forall>c\<in>set ''v1.2''. is_digit c \<or> c = CHR ''.''))"
    by (simp add: is_digit_def)
  have s: "getParsedValue ''v1.2'' = JStr ''v1.2''"
    using getParsedValue_numeric_iff [of "''v1.2''"] c by blast
  show ?thesis
    using n g l s by simp
qed

section \<open>The report parser: the example report\<close>

text \<open>
  C7: the parser is a function of its input, and on the three-line report
  \<open>redis_version:6.2.14\<close>, \<open>connected_clients:1\<close>, \<open>role:master\<close> (each line ended by a
  line feed) it returns exactly the mapping of \<open>redis_version\<close> to 6.2 (the number
  31/5), \<open>connected_clients\<close> to 1 and \<open>role\<close> to the string \<open>master\<close>.
\<close>

theorem convertInfoToObject_example:
  "convertInfoToObject
     (''redis_version:6.2.14'' @ [CHR 0x0A] @ ''connected_clients:1'' @ [CHR 0x0A]
      @ ''role:master'' @ [CHR 0x0A])
   = Inr [(''redis_version'', JNum (Fin (62 / 10))), (''connected_clients'', JNum (Fin 1)),
          (''role'', JStr ''master'')]"
  by code_simp

section \<open>Pair-wise parameters\<close>

text \<open>
  C5: an mset or zadd item whose token list has odd length fails with the validation
  error of its branch, and the state is the one before the item: no call reached the
  store and nothing was added to the output.
\<close>

theorem odd_pairs_rejected:
  "(sparam env ''keyValuePairs'' i = Some s \<and> length (tokens s) mod 2 \<noteq> 0 \<longrightarrow>
      item_body env ''mset'' i it st =
        (Inl (NodeOperationError ''Key-value pairs must be even number of arguments'' None), st))
   \<and> (sparam env ''sortedSet'' i = Some k \<and> sparam env ''scoreMembers'' i = Some s
        \<and> length (tokens s) mod 2 \<noteq> 0 \<longrightarrow>
      item_body env ''zadd'' i it st =
        (Inl (NodeOperationError ''Score-member pairs must be even number of arguments'' None), st))"
  by (simp add: item_body_def op_mset_def op_zadd_def then_do_def required_def ret_def
      throw_def Let_def)

theorem odd_pairs_rejected_witness:
  "tokens ''key1 value1 key2'' = [''key1'', ''value1'', ''key2'']
   \<and> item_body pairs_env ''mset'' 0 empty_item initial_state =
       (Inl (NodeOperationError ''Key-value pairs must be even number of arguments'' None),
        initial_state)
   \<and> tokens ''1 alice 2'' = [''1'', ''alice'', ''2'']
   \<and> item_body pairs_env ''zadd'' 0 empty_item initial_state =
       (Inl (NodeOperationError ''Score-member pairs must be even number of arguments'' None),
        initial_state)"
proof -
  have t1: "tokens ''key1 value1 key2'' = [''key1'', ''value1'', ''key2'']"
    by (simp add: tokens_def is_space_def)
  have t2: "tokens ''1 alice 2'' = [''1'', ''alice'', ''2'']"
    by (simp add: tokens_def is_space_def)
  have p1: "sparam pairs_env ''keyValuePairs'' 0 = Some ''key1 value1 key2''"
    by (simp add: pairs_env_def)
  have p2: "sparam pairs_env ''sortedSet'' 0 = Some ''board''"
    by (simp add: pairs_env_def)
  have p3: "sparam pairs_env ''scoreMembers'' 0 = Some ''1 alice 2''"
    by (simp add: pairs_env_def)
  show ?thesis
    using odd_pairs_rejected [of pairs_env 0 "''key1 value1 key2''" empty_item initial_state "''board''"]
      odd_pairs_rejected [of pairs_env 0 "''1 alice 2''" empty_item initial_state "''board''"]
      t1 t2 p1 p2 p3
    by simp
qed

section \<open>Conditional string writes\<close>

text \<open>
  C4: a write to the string type with mode \<open>nx\<close> or \<open>xx\<close> whose \<open>set\<close> call the store
  answers with null returns the failure result (\<open>success\<close> false, reason
  \<open>key_already_exists\<close> for \<open>nx\<close> and \<open>key_does_not_exist\<close> for \<open>xx\<close>) as a value, not as
  an error, after exactly that one call.
\<close>

theorem setValue_condition_not_met:
  assumes "resolve_type ty v = Inr ''string''"
    and "m = ''nx'' \<or> m = ''xx''"
    and "toString env v = Inr s"
    and "respond env (calls st)
           (Set keyName s (Some \<lparr> opt_EX = (if expire \<and> ttl > 0 then Some ttl else None),
                                   opt_NX = (m = ''nx''), opt_XX = (m = ''xx'') \<rparr>)) = Inr JNull"
  shows "setValue env keyName v expire ttl ty valueIsJSON (Some m) st =
           (Inr \<lparr> success = False,
                  operation = ''SET '' @ toUpperCase m,
                  key = keyName,
                  reason = Some (if m = ''nx'' then ''key_already_exists'' else ''key_does_not_exist''),
                  message = Some (''SET '' @ toUpperCase m @ '' condition not met: key '' @ [CHR 0x22]
                                  @ keyName @ [CHR 0x22, CHR '' '']
                                  @ (if m = ''nx'' then ''already exists'' else ''does not exist'')) \<rparr>,
            st\<lparr>calls := calls st @
                  [Set keyName s (Some \<lparr> opt_EX = (if expire \<and> ttl > 0 then Some ttl else None),
                                          opt_NX = (m = ''nx''), opt_XX = (m = ''xx'') \<rparr>)]\<rparr>)"
  using assms
  by (auto simp add: setValue_def write_value_def set_string_def then_do_def lift_def ret_def
      client_call_def set_failure_def Let_def)

theorem setValue_condition_not_met_witness:
  "setValue nx_env ''lock'' (JStr ''owner-1'') True 30 (Some ''automatic'') True (Some ''nx'')
     initial_state =
     (Inr \<lparr> success = False, operation = ''SET NX'', key = ''lock'',
            reason = Some ''key_already_exists'',
            message = Some (''SET NX condition not met: key '' @ [CHR 0x22] @ ''lock''
                            @ [CHR 0x22] @ '' already exists'') \<rparr>,
      \<lparr> calls = [Set ''lock'' ''owner-1''
                    (Some \<lparr> opt_EX = Some 30, opt_NX = True, opt_XX = False \<rparr>)],
        returnItems = [] \<rparr>)"
proof -
  have h1: "resolve_type (Some ''automatic'') (JStr ''owner-1'') = Inr ''string''"
    by (simp add: resolve_type_def infer_type_def)
  have h2: "toString nx_env (JStr ''owner-1'') = Inr ''owner-1''"
    by (simp add: toString_def)
  have h3: "respond nx_env (calls initial_state)
              (Set ''lock'' ''owner-1''
                 (Some \<lparr> opt_EX = (if True \<and> (30::rat) > 0 then Some 30 else None),
                         opt_NX = (''nx'' = ''nx''), opt_XX = (''nx'' = ''xx'') \<rparr>)) = Inr JNull"
    by (simp add: nx_env_def)
  have up: "toUpperCase ''nx'' = ''NX''"
    by code_simp
  show ?thesis
    using setValue_condition_not_met [OF h1 _ h2 h3, of True] up
    by (simp add: initial_state_def)
qed

section \<open>The set mode outside the string type\<close>

lemma write_value_mode_free:
  "t \<noteq> ''string'' \<Longrightarrow>
     write_value env keyName v expire ttl t valueIsJSON m =
     write_value env keyName v expire ttl t valueIsJSON None"
  by (simp add: write_value_def)

lemma write_value_no_early:
  "t \<noteq> ''string'' \<Longrightarrow>
     write_value env keyName v expire ttl t valueIsJSON m st = (Inr r, st') \<Longrightarrow> r = None"
  by (auto simp add: write_value_def then_do_def ret_def split: if_splits prod.splits sum.splits)

lemma setValue_not_string:
  assumes "resolve_type ty v = Inr t" and "t \<noteq> ''string''"
  shows "setValue env keyName v expire ttl ty valueIsJSON m st =
           (case write_value env keyName v expire ttl t valueIsJSON None st of
              (Inl e, st') \<Rightarrow> (Inl e, st')
            | (Inr _, st') \<Rightarrow>
                (case (if expire \<and> ttl > 0
                       then then_do (client_call env (Expire keyName ttl)) (\<lambda>_. ret ())
                       else ret ()) st' of
                   (Inl e, st'') \<Rightarrow> (Inl e, st'')
                 | (Inr _, st'') \<Rightarrow> (Inr (set_success keyName m), st'')))"
proof -
  obtain r st' where w: "write_value env keyName v expire ttl t valueIsJSON None st = (r, st')"
    by fastforce
  then have w': "write_value env keyName v expire ttl t valueIsJSON m st = (r, st')"
    using write_value_mode_free [OF assms(2)] by metis
  show ?thesis
  proof (cases r)
    case (Inl e)
    then show ?thesis
      using w w' assms by (simp add: setValue_def then_do_def lift_def)
  next
    case (Inr x)
    then have "x = None"
      using write_value_no_early [OF assms(2)] w by blast
    then show ?thesis
      using Inr w w' assms
      by (simp add: setValue_def then_do_def lift_def ret_def split: prod.splits sum.splits)
  qed
qed

text \<open>
  C10: when the resolved type is not \<open>string\<close> (hash, list and sets among them), two calls
  of \<open>setValue\<close> that differ only in the set mode leave the same state, hence issue the
  same store calls; they raise the same error or both return the success result, whose
  \<open>success\<close> is true and which has no reason code. So a result with \<open>success\<close> false can
  come from the string type only.
\<close>

theorem setValue_mode_only_for_strings:
  assumes "resolve_type ty v = Inr t" and "t \<noteq> ''string''"
  shows "snd (setValue env keyName v expire ttl ty valueIsJSON m1 st) =
         snd (setValue env keyName v expire ttl ty valueIsJSON m2 st)
       \<and> ((\<exists>e. fst (setValue env keyName v expire ttl ty valueIsJSON m1 st) = Inl e
             \<and> fst (setValue env keyName v expire ttl ty valueIsJSON m2 st) = Inl e)
          \<or> (fst (setValue env keyName v expire ttl ty valueIsJSON m1 st)
                = Inr (set_success keyName m1)
             \<and> fst (setValue env keyName v expire ttl ty valueIsJSON m2 st)
                = Inr (set_success keyName m2)))
       \<and> (\<forall>res. fst (setValue env keyName v expire ttl ty valueIsJSON m1 st) = Inr res
             \<longrightarrow> success res \<and> reason res = None)"
  unfolding setValue_not_string [OF assms]
  by (auto simp add: set_success_def split: prod.splits sum.splits)

theorem setValue_mode_only_for_strings_witness:
  "snd (setValue nx_env ''queue'' (JArr [JStr ''a'', JStr ''b'']) False (- 1) (Some ''list'') True
          (Some ''nx'') initial_state)
     = \<lparr> calls = [LSet ''queue'' 0 ''a'', LSet ''queue'' 1 ''b''], returnItems = [] \<rparr>
   \<and> fst (setValue nx_env ''queue'' (JArr [JStr ''a'', JStr ''b'']) False (- 1) (Some ''list'') True
          (Some ''nx'') initial_state)
     = Inr \<lparr> success = True, operation = ''SET NX'', key = ''queue'', reason = None,
             message = None \<rparr>"
proof -
  have h1: "resolve_type (Some ''list'') (JArr [JStr ''a'', JStr ''b'']) = Inr ''list''"
    by (simp add: resolve_type_def)
  have h2: "''list'' \<noteq> ''string''"
    by simp
  have always:
    "setValue nx_env ''queue'' (JArr [JStr ''a'', JStr ''b'']) False (- 1) (Some ''list'') True
       (Some ''always'') initial_state
     = (Inr \<lparr> success = True, operation = ''SET ALWAYS'', key = ''queue'', reason = None,
              message = None \<rparr>,
        \<lparr> calls = [LSet ''queue'' 0 ''a'', LSet ''queue'' 1 ''b''], returnItems = [] \<rparr>)"
    by code_simp
  have up: "set_success ''queue'' (Some ''nx'')
              = \<lparr> success = True, operation = ''SET NX'', key = ''queue'', reason = None,
                  message = None \<rparr>"
    by code_simp
  show ?thesis
    using setValue_mode_only_for_strings
        [OF h1 h2, of nx_env "''queue''" False "- 1" True "Some ''nx''" initial_state
           "Some ''always''"]
      always up
    by simp
qed

section \<open>Hash writes of a string that is not JSON\<close>







section \<open>Operations outside the catalogue\<close>

text \<open>
  C9: for an operation identifier that is neither \<open>info\<close> nor one of the 36 identifiers of
  the item loop, and a client whose connect, ping and quit succeed, \<open>execute\<close> makes
  exactly the calls connect, ping and quit and returns one empty batch; nothing is raised.
\<close>

theorem execute_unknown_operation:
  assumes "getCredentials env = Inr credentials"
    and "sparam env ''operation'' 0 = Some op_id"
    and "op_id \<noteq> ''info''"
    and "op_id \<notin> set per_item_ops"
    and "respond env [] (Connect (setupRedisClient credentials)) = Inr r1"
    and "respond env [Connect (setupRedisClient credentials)] Ping = Inr r2"
    and "respond env [Connect (setupRedisClient credentials), Ping] Quit = Inr r3"
  shows "length per_item_ops = 36
       \<and> execute env =
           (Inr [[]], \<lparr> calls = [Connect (setupRedisClient credentials), Ping, Quit],
                        returnItems = [] \<rparr>)"
  using assms
  by (simp add: execute_def then_do_def lift_def ret_def client_call_def required_def
      initial_state_def per_item_ops_def)

theorem execute_unknown_operation_witness:
  "''json.set'' \<noteq> ''info'' \<and> ''json.set'' \<notin> set per_item_ops
   \<and> execute unknown_op_env =
       (Inr [[]], \<lparr> calls = [Connect local_client, Ping, Quit], returnItems = [] \<rparr>)"
proof -
  let ?cred = "\<lparr> host = ''localhost'', port = 6379, database = 0,
                  user = None, password = None, ssl = None \<rparr>"
  have c: "getCredentials unknown_op_env = Inr ?cred"
    by (simp add: unknown_op_env_def base_env_def)
  have o: "sparam unknown_op_env ''operation'' 0 = Some ''json.set''"
    by (simp add: unknown_op_env_def)
  have n1: "''json.set'' \<noteq> ''info''"
    by simp
  have n2: "''json.set'' \<notin> set per_item_ops"
    by (simp add: per_item_ops_def)
  have s: "setupRedisClient ?cred = local_client"
    by (simp add: setupRedisClient_def local_client_def or_undefined_def)
  have r: "\<And>h c. respond unknown_op_env h c = Inr (JStr ''OK'')"
    by (simp add: unknown_op_env_def base_env_def)
  show ?thesis
    using execute_unknown_operation [OF c o n1 n2 r r r] s n2 by simp
qed

section \<open>The operations without a loop of their own\<close>

text \<open>
  Every handler but those of jsonget and jsonset makes no connection call and adds one
  record on success and none on failure. For these operations, and for \<open>info\<close> and the
  identifiers outside the catalogue, a run whose connect and ping succeed opens the
  connection once and closes it once, on every path; and a run of the item loop that
  returns, returns as many records as there are input items.
\<close>

lemma quit_and_throw_result:
  "\<exists>e'. quit_and_throw env e st = (Inl e', st\<lparr>calls := calls st @ [Quit]\<rparr>)"
  by (cases "respond env (calls st) Quit")
     (simp_all add: quit_and_throw_def then_do_def client_call_def throw_def)

lemma no_connection_call_simps [simp]:
  "no_connection_call []"
  "no_connection_call (c # cs) \<longleftrightarrow> \<not> connection_call c \<and> no_connection_call cs"
  "no_connection_call (cs @ ds) \<longleftrightarrow> no_connection_call cs \<and> no_connection_call ds"
  by (simp_all add: no_connection_call_def)

lemma store_calls [simp]:
  "\<not> connection_call (Ping)"
  "\<not> connection_call (Info)"
  "\<not> connection_call (Del a)"
  "\<not> connection_call (Type a)"
  "\<not> connection_call (Get a)"
  "\<not> connection_call (HGetAll a)"
  "\<not> connection_call (LRange a i1 i2)"
  "\<not> connection_call (SMembers a)"
  "\<not> connection_call (Set a b so)"
  "\<not> connection_call (HSet a b c)"
  "\<not> connection_call (HSetList a bs)"
  "\<not> connection_call (LSet a n b)"
  "\<not> connection_call (SAdd a v)"
  "\<not> connection_call (Expire a q)"
  "\<not> connection_call (SendCommand bs)"
  "\<not> connection_call (Keys a)"
  "\<not> connection_call (Incr a)"
  "\<not> connection_call (Publish a b)"
  "\<not> connection_call (RPush a b)"
  "\<not> connection_call (LPush a b)"
  "\<not> connection_call (RPop a)"
  "\<not> connection_call (LPop a)"
  "\<not> connection_call (Exists bs)"
  "\<not> connection_call (MGet bs)"
  "\<not> connection_call (MSet kvs)"
  "\<not> connection_call (Scan q a q2)"
  "\<not> connection_call (Ttl a)"
  "\<not> connection_call (Persist a)"
  "\<not> connection_call (ExpireAt a q)"
  "\<not> connection_call (GetSet a b)"
  "\<not> connection_call (Append a b)"
  "\<not> connection_call (StrLen a)"
  "\<not> connection_call (BlPop a q)"
  "\<not> connection_call (BrPop a q)"
  "\<not> connection_call (LLen a)"
  "\<not> connection_call (SAddMembers a bs)"
  "\<not> connection_call (SRem a bs)"
  "\<not> connection_call (SIsMember a b)"
  "\<not> connection_call (SCard a)"
  "\<not> connection_call (ZAdd a zs)"
  "\<not> connection_call (ZRangeWithScores a q q2)"
  "\<not> connection_call (ZRange a q q2)"
  "\<not> connection_call (ZRem a bs)"
  "\<not> connection_call (ZCard a)"
  "\<not> connection_call (HLen a)"
  "\<not> connection_call (HKeys a)"
  "\<not> connection_call (HVals a)"
  "\<not> connection_call (HExists a b)"
  "\<not> connection_call (Eval a bs cs)"
  by (simp_all add: connection_call_def)

lemma quiet_ret [intro!, simp]: "quiet (ret x)"
  by (simp add: quiet_def ret_def)

lemma quiet_throw [intro!, simp]: "quiet (throw e)"
  by (simp add: quiet_def throw_def)

lemma quiet_lift [intro!, simp]: "quiet (lift r)"
  by (simp add: quiet_def lift_def)

lemma quiet_required [intro!, simp]: "quiet (required p)"
  by (cases p) (simp_all add: required_def)

lemma quiet_client_call [intro!]: "\<not> connection_call c \<Longrightarrow> quiet (client_call env c)"
  by (simp add: quiet_def client_call_def)

lemma quiet_items: "quiet m \<Longrightarrow> returnItems (snd (m st)) = returnItems st"
  by (simp add: quiet_def)

lemma quiet_calls:
  "quiet m \<Longrightarrow> \<exists>cs. calls (snd (m st)) = calls st @ cs \<and> no_connection_call cs"
  by (simp add: quiet_def)

lemma one_record_calls:
  "one_record m \<Longrightarrow> \<exists>cs. calls (snd (m st)) = calls st @ cs \<and> no_connection_call cs"
  by (simp add: one_record_def)

lemma one_record_items:
  "one_record m \<Longrightarrow>
     (case fst (m st) of
        Inl _ \<Rightarrow> returnItems (snd (m st)) = returnItems st
      | Inr _ \<Rightarrow> (\<exists>x. returnItems (snd (m st)) = returnItems st @ [x]))"
  by (simp add: one_record_def)

lemma calls_extend:
  assumes "\<exists>cs. calls s1 = calls st @ cs \<and> no_connection_call cs"
    and "\<exists>cs. calls s2 = calls s1 @ cs \<and> no_connection_call cs"
  shows "\<exists>cs. calls s2 = calls st @ cs \<and> no_connection_call cs"
proof -
  obtain c1 where c1: "calls s1 = calls st @ c1" "no_connection_call c1"
    using assms(1) by blast
  obtain c2 where c2: "calls s2 = calls s1 @ c2" "no_connection_call c2"
    using assms(2) by blast
  have "calls s2 = calls st @ (c1 @ c2) \<and> no_connection_call (c1 @ c2)"
    using c1 c2 by simp
  then show ?thesis by blast
qed

lemma quiet_then_do [intro!]:
  assumes "quiet m" and "\<And>x. quiet (f x)"
  shows "quiet (then_do m f)"
proof -
  have "returnItems (snd (then_do m f st)) = returnItems st
        \<and> (\<exists>cs. calls (snd (then_do m f st)) = calls st @ cs \<and> no_connection_call cs)" for st
  proof (cases "m st")
    case (Pair r s1)
    then have s1: "s1 = snd (m st)" by simp
    have m1: "returnItems s1 = returnItems st"
      unfolding s1 by (rule quiet_items [OF assms(1)])
    have m2: "\<exists>cs. calls s1 = calls st @ cs \<and> no_connection_call cs"
      unfolding s1 by (rule quiet_calls [OF assms(1)])
    show ?thesis
    proof (cases r)
      case (Inl e)
      have td: "then_do m f st = (Inl e, s1)"
        using Pair Inl by (simp add: then_do_def)
      show ?thesis unfolding td using m1 m2 by simp
    next
      case (Inr x)
      have td: "then_do m f st = f x s1"
        using Pair Inr by (simp add: then_do_def)
      have f1: "returnItems (snd (f x s1)) = returnItems s1"
        by (rule quiet_items [OF assms(2)])
      have f2: "\<exists>cs. calls (snd (f x s1)) = calls s1 @ cs \<and> no_connection_call cs"
        by (rule quiet_calls [OF assms(2)])
      show ?thesis unfolding td using m1 f1 calls_extend [OF m2 f2] by simp
    qed
  qed
  then show ?thesis by (simp add: quiet_def)
qed

lemma one_record_push [intro!, simp]: "one_record (push x)"
  by (simp add: one_record_def push_def)

lemma one_record_throw [intro!, simp]: "one_record (throw e)"
  by (simp add: one_record_def throw_def)

lemma one_record_then_do [intro!]:
  assumes "quiet m" and "\<And>x. one_record (f x)"
  shows "one_record (then_do m f)"
proof -
  have "(\<exists>cs. calls (snd (then_do m f st)) = calls st @ cs \<and> no_connection_call cs)
        \<and> (case fst (then_do m f st) of
              Inl _ \<Rightarrow> returnItems (snd (then_do m f st)) = returnItems st
            | Inr _ \<Rightarrow> (\<exists>x. returnItems (snd (then_do m f st)) = returnItems st @ [x]))" for st
  proof (cases "m st")
    case (Pair r s1)
    then have s1: "s1 = snd (m st)" by simp
    have m1: "returnItems s1 = returnItems st"
      unfolding s1 by (rule quiet_items [OF assms(1)])
    have m2: "\<exists>cs. calls s1 = calls st @ cs \<and> no_connection_call cs"
      unfolding s1 by (rule quiet_calls [OF assms(1)])
    show ?thesis
    proof (cases r)
      case (Inl e)
      have td: "then_do m f st = (Inl e, s1)"
        using Pair Inl by (simp add: then_do_def)
      show ?thesis unfolding td using m1 m2 by simp
    next
      case (Inr x)
      have td: "then_do m f st = f x s1"
        using Pair Inr by (simp add: then_do_def)
      have f1: "case fst (f x s1) of
                  Inl _ \<Rightarrow> returnItems (snd (f x s1)) = returnItems s1
                | Inr _ \<Rightarrow> (\<exists>y. returnItems (snd (f x s1)) = returnItems s1 @ [y])"
        by (rule one_record_items [OF assms(2)])
      have f2: "\<exists>cs. calls (snd (f x s1)) = calls s1 @ cs \<and> no_connection_call cs"
        by (rule one_record_calls [OF assms(2)])
      show ?thesis unfolding td using m1 f1 calls_extend [OF m2 f2] by (simp split: sum.splits)
    qed
  qed
  then show ?thesis by (simp add: one_record_def)
qed

lemma quiet_if [intro!]:
  "(c \<Longrightarrow> quiet a) \<Longrightarrow> (\<not> c \<Longrightarrow> quiet b) \<Longrightarrow> quiet (if c then a else b)"
  by simp

lemma quiet_case_option [intro!]:
  "(x = None \<Longrightarrow> quiet a) \<Longrightarrow> (\<And>y. x = Some y \<Longrightarrow> quiet (f y))
     \<Longrightarrow> quiet (case x of None \<Rightarrow> a | Some y \<Rightarrow> f y)"
  by (cases x) simp_all

lemma one_record_if [intro!]:
  "(c \<Longrightarrow> one_record a) \<Longrightarrow> (\<not> c \<Longrightarrow> one_record b) \<Longrightarrow> one_record (if c then a else b)"
  by simp

lemma quiet_getValue [intro!, simp]: "quiet (getValue env k ty)"
  unfolding getValue_def
proof (rule quiet_then_do)
  show "quiet (case ty of
                 None \<Rightarrow> client_call env (Type k)
               | Some t \<Rightarrow> if t = ''automatic'' then client_call env (Type k) else ret (JStr t))"
    by (cases ty) (simp_all add: quiet_client_call)
next
  fix x
  show "quiet (if x = JStr ''string'' then client_call env (Get k)
               else if x = JStr ''hash'' then client_call env (HGetAll k)
               else if x = JStr ''list'' then client_call env (LRange k 0 (- 1))
               else if x = JStr ''sets'' then client_call env (SMembers k)
               else ret JUndef)"
    by (simp add: quiet_client_call)
qed

lemma quiet_set_property [intro!, simp]: "quiet (set_property env i p v)"
  unfolding set_property_def by (intro quiet_then_do quiet_lift quiet_ret)

lemma quiet_stateful:
  assumes "\<And>st. returnItems (snd (m st)) = returnItems st"
    and "\<And>st. \<exists>cs. calls (snd (m st)) = calls st @ cs \<and> no_connection_call cs"
  shows "quiet m"
  using assms by (simp add: quiet_def)

lemma quietD:
  assumes "quiet m" and "m st = (r, st')"
  shows "returnItems st' = returnItems st" and "\<exists>cs. calls st' = calls st @ cs \<and> no_connection_call cs"
  using assms by (auto simp add: quiet_def dest: spec [of _ st])

lemma hset_each_quiet:
  "returnItems (snd (hset_each env k kvs st)) = returnItems st
   \<and> (\<exists>cs. calls (snd (hset_each env k kvs st)) = calls st @ cs \<and> no_connection_call cs)"
proof (induction kvs arbitrary: st)
  case Nil
  show ?case by simp
next
  case (Cons p kvs)
  obtain f x where p: "p = (f, x)" by (cases p)
  show ?case
  proof (cases "toString env x")
    case (Inl e)
    then show ?thesis by (simp add: p)
  next
    case (Inr s)
    let ?st1 = "st\<lparr>calls := calls st @ [HSet k f s]\<rparr>"
    obtain cs where cs: "calls (snd (hset_each env k kvs ?st1)) = calls ?st1 @ cs" "no_connection_call cs"
      using Cons.IH [of ?st1] by blast
    have "calls (snd (hset_each env k kvs ?st1)) = calls st @ (HSet k f s # cs)
          \<and> no_connection_call (HSet k f s # cs)"
      using cs by simp
    then have "\<exists>cs. calls (snd (hset_each env k kvs ?st1)) = calls st @ cs \<and> no_connection_call cs"
      by blast
    then show ?thesis
      using Inr Cons.IH [of ?st1]
      by (cases "respond env (calls st) (HSet k f s)")
         (simp_all add: p client_call_def)
  qed
qed

lemma quiet_hset_each [intro!, simp]: "quiet (hset_each env k kvs)"
  using hset_each_quiet by (simp add: quiet_def)

lemma lset_each_quiet:
  "returnItems (snd (lset_each env k n xs st)) = returnItems st
   \<and> (\<exists>cs. calls (snd (lset_each env k n xs st)) = calls st @ cs \<and> no_connection_call cs)"
proof (induction xs arbitrary: st n)
  case Nil
  show ?case by simp
next
  case (Cons x xs)
  show ?case
  proof (cases "toString env x")
    case (Inl e)
    then show ?thesis by simp
  next
    case (Inr s)
    let ?st1 = "st\<lparr>calls := calls st @ [LSet k n s]\<rparr>"
    obtain cs where cs: "calls (snd (lset_each env k (Suc n) xs ?st1)) = calls ?st1 @ cs" "no_connection_call cs"
      using Cons.IH [of "Suc n" ?st1] by blast
    have "calls (snd (lset_each env k (Suc n) xs ?st1)) = calls st @ (LSet k n s # cs)
          \<and> no_connection_call (LSet k n s # cs)"
      using cs by simp
    then have "\<exists>cs. calls (snd (lset_each env k (Suc n) xs ?st1)) = calls st @ cs \<and> no_connection_call cs"
      by blast
    then show ?thesis
      using Inr Cons.IH [of "Suc n" ?st1]
      by (cases "respond env (calls st) (LSet k n s)")
         (simp_all add: client_call_def)
  qed
qed

lemma quiet_lset_each [intro!, simp]: "quiet (lset_each env k n xs)"
  using lset_each_quiet by (simp add: quiet_def)

lemma keys_values_quiet:
  "returnItems (snd (keys_values env ks acc st)) = returnItems st
   \<and> (\<exists>cs. calls (snd (keys_values env ks acc st)) = calls st @ cs \<and> no_connection_call cs)"
proof (induction ks arbitrary: st acc)
  case Nil
  show ?case by simp
next
  case (Cons k ks)
  obtain r s1 where g: "getValue env k None st = (r, s1)" by fastforce
  have q: "returnItems s1 = returnItems st" "\<exists>cs. calls s1 = calls st @ cs \<and> no_connection_call cs"
    using quietD [OF quiet_getValue g] by auto
  show ?case
  proof (cases r)
    case (Inl e)
    then show ?thesis using g q by simp
  next
    case (Inr v)
    obtain c1 where c1: "calls s1 = calls st @ c1" "no_connection_call c1" using q by blast
    obtain c2 where c2: "calls (snd (keys_values env ks (obj_set acc k v) s1)) = calls s1 @ c2" "no_connection_call c2"
      using Cons.IH [of "obj_set acc k v" s1] by blast
    have "calls (snd (keys_values env ks (obj_set acc k v) s1)) = calls st @ (c1 @ c2) \<and> no_connection_call (c1 @ c2)"
      using c1 c2 by simp
    then have "\<exists>cs. calls (snd (keys_values env ks (obj_set acc k v) s1)) = calls st @ cs \<and> no_connection_call cs"
      by blast
    then show ?thesis
      using Inr g q Cons.IH [of "obj_set acc k v" s1] by simp
  qed
qed

lemma quiet_keys_values [intro!, simp]: "quiet (keys_values env ks acc)"
  using keys_values_quiet by (simp add: quiet_def)

lemma quiet_set_string [intro!, simp]: "quiet (set_string env k v expire ttl m)"
  unfolding set_string_def Let_def
  by (auto split: option.splits)

lemma quiet_set_hash [intro!, simp]: "quiet (set_hash env k v j)"
  unfolding set_hash_def Let_def
  by auto

lemma quiet_set_list [intro!, simp]: "quiet (set_list env k v)"
  unfolding set_list_def by auto

lemma quiet_write_value [intro!, simp]: "quiet (write_value env k v expire ttl t j m)"
  unfolding write_value_def by auto

lemma quiet_setValue [intro!, simp]: "quiet (setValue env k v expire ttl ty j m)"
  unfolding setValue_def
  by (auto split: option.splits)


lemma one_record_op_delete: "one_record (op_delete env i it)"
  unfolding op_delete_def Let_def
  by (auto split: if_splits)

lemma one_record_op_get: "one_record (op_get env i)"
  unfolding op_get_def Let_def
  by (auto split: if_splits)

lemma one_record_op_keys: "one_record (op_keys env i)"
  unfolding op_keys_def Let_def
  by (auto split: if_splits)

lemma one_record_op_set: "one_record (op_set env i it)"
  unfolding op_set_def Let_def
  by (auto split: if_splits)

lemma one_record_op_json_set: "one_record (op_json_set env i it)"
  unfolding op_json_set_def Let_def
  by (auto split: if_splits)

lemma one_record_op_incr: "one_record (op_incr env i)"
  unfolding op_incr_def Let_def
  by (auto split: if_splits)

lemma one_record_op_publish: "one_record (op_publish env i it)"
  unfolding op_publish_def Let_def
  by (auto split: if_splits)

lemma one_record_op_push: "one_record (op_push env i it)"
  unfolding op_push_def Let_def
  by (auto split: if_splits)

lemma one_record_op_pop: "one_record (op_pop env i)"
  unfolding op_pop_def Let_def
  by (auto split: if_splits)

lemma one_record_op_exists: "one_record (op_exists env i)"
  unfolding op_exists_def Let_def
  by (auto split: if_splits)

lemma one_record_op_mget: "one_record (op_mget env i)"
  unfolding op_mget_def Let_def
  by (auto split: if_splits)

lemma one_record_op_mset: "one_record (op_mset env i it)"
  unfolding op_mset_def Let_def
  by (auto split: if_splits)

lemma one_record_op_scan: "one_record (op_scan env i)"
  unfolding op_scan_def Let_def
  by (auto split: if_splits)

lemma one_record_op_key_reply: "(\<And>k. \<not> connection_call (mk k)) \<Longrightarrow> one_record (op_key_reply env i name mk field)"
  unfolding op_key_reply_def Let_def
  by (auto split: if_splits)

lemma one_record_op_expireat: "one_record (op_expireat env i)"
  unfolding op_expireat_def Let_def
  by (auto split: if_splits)

lemma one_record_op_getset: "one_record (op_getset env i)"
  unfolding op_getset_def Let_def
  by (auto split: if_splits)

lemma one_record_op_append: "one_record (op_append env i)"
  unfolding op_append_def Let_def
  by (auto split: if_splits)

lemma one_record_op_bpop: "(\<And>k t. \<not> connection_call (mk k t)) \<Longrightarrow> one_record (op_bpop env i mk)"
  unfolding op_bpop_def Let_def
  by (auto split: if_splits)

lemma one_record_op_members: "(\<And>k ms. \<not> connection_call (mk k ms)) \<Longrightarrow> one_record (op_members env i name mk field)"
  unfolding op_members_def Let_def
  by (auto split: if_splits)

lemma one_record_op_sismember: "one_record (op_sismember env i)"
  unfolding op_sismember_def Let_def
  by (auto split: if_splits)

lemma one_record_op_zadd: "one_record (op_zadd env i)"
  unfolding op_zadd_def Let_def
  by (auto split: if_splits)

lemma one_record_op_zrange: "one_record (op_zrange env i)"
  unfolding op_zrange_def Let_def
  by (auto split: if_splits)

lemma one_record_op_hexists: "one_record (op_hexists env i)"
  unfolding op_hexists_def Let_def
  by (auto split: if_splits)

lemma one_record_op_eval: "one_record (op_eval env i)"
  unfolding op_eval_def Let_def
  by (auto split: if_splits)


lemma one_record_item_body:
  assumes "op_id \<in> set per_item_ops" and "op_id \<noteq> ''jsonset''" and "op_id \<noteq> ''jsonget''"
  shows "one_record (item_body env op_id i it)"
  using assms
  unfolding per_item_ops_def item_body_def
  by (auto simp add: one_record_op_delete one_record_op_get one_record_op_keys one_record_op_set
      one_record_op_incr one_record_op_publish one_record_op_push one_record_op_pop
      one_record_op_exists one_record_op_mget one_record_op_mset one_record_op_scan
      one_record_op_key_reply one_record_op_expireat one_record_op_getset one_record_op_append
      one_record_op_bpop one_record_op_members one_record_op_sismember one_record_op_zadd
      one_record_op_zrange one_record_op_hexists one_record_op_eval)


lemma item_loop_normal:
  assumes body: "\<And>i it. one_record (item_body env op_id i it)"
  shows "closes_once st (item_loop env op_id items st)
       \<and> (fst (item_loop env op_id items st) = Inr () \<longrightarrow>
            length (returnItems (snd (item_loop env op_id items st)))
              = length (returnItems st) + length items)"
proof (induction items arbitrary: st)
  case Nil
  show ?case by (simp add: closes_once_def)
next
  case (Cons p items)
  obtain i it where p: "p = (i, it)" by (cases p)
  obtain r s1 where b: "item_body env op_id i it st = (r, s1)" by fastforce
  then have s1: "s1 = snd (item_body env op_id i it st)" and r: "r = fst (item_body env op_id i it st)"
    by simp_all
  have c1: "\<exists>cs. calls s1 = calls st @ cs \<and> no_connection_call cs"
    unfolding s1 by (rule one_record_calls [OF body])
  have i1: "case r of
              Inl _ \<Rightarrow> returnItems s1 = returnItems st
            | Inr _ \<Rightarrow> (\<exists>x. returnItems s1 = returnItems st @ [x])"
    unfolding s1 r by (rule one_record_items [OF body])
  obtain cs1 where cs1: "calls s1 = calls st @ cs1" "no_connection_call cs1"
    using c1 by blast
  show ?case
  proof (cases r)
    case (Inr u)
    have step: "item_loop env op_id (p # items) st = item_loop env op_id items s1"
      using b Inr by (simp add: p)
    obtain x where x: "returnItems s1 = returnItems st @ [x]"
      using i1 Inr by auto
    show ?thesis
      unfolding step using Cons.IH [of s1] cs1 x
      by (auto simp add: closes_once_def split: sum.splits)
  next
    case (Inl e)
    have keep: "returnItems s1 = returnItems st"
      using i1 Inl by simp
    show ?thesis
    proof (cases "continueOnFail env")
      case True
      let ?s2 = "s1\<lparr>returnItems := returnItems s1 @ [error_item e i]\<rparr>"
      have step: "item_loop env op_id (p # items) st = item_loop env op_id items ?s2"
        using b Inl True by (simp add: p)
      show ?thesis
        unfolding step using Cons.IH [of ?s2] cs1 keep
        by (auto simp add: closes_once_def split: sum.splits)
    next
      case False
      obtain e' where q: "quit_and_throw env (rethrow e (Some i)) s1
                            = ((Inl e' :: error + unit), s1\<lparr>calls := calls s1 @ [Quit]\<rparr>)"
        using quit_and_throw_result by blast
      have step: "item_loop env op_id (p # items) st = (Inl e', s1\<lparr>calls := calls s1 @ [Quit]\<rparr>)"
        using b Inl False q by (simp add: p)
      show ?thesis
        unfolding step using cs1 by (auto simp add: closes_once_def)
    qed
  qed
qed

lemma info_branch_closes_once: "closes_once st (info_branch env st)"
proof (cases "respond env (calls st) Info")
  case (Inl e)
  obtain e' where q: "quit_and_throw env (rethrow e None)
                        (st\<lparr>calls := calls st @ [Info]\<rparr>)
                      = ((Inl e' :: error + unit), st\<lparr>calls := calls st @ [Info, Quit]\<rparr>)"
    using quit_and_throw_result [of env _ "st\<lparr>calls := calls st @ [Info]\<rparr>"] by auto
  show ?thesis
    using Inl q
    by (cases "continueOnFail env")
       (auto simp add: info_branch_def then_do_def client_call_def push_def closes_once_def)
next
  case (Inr v)
  let ?s1 = "st\<lparr>calls := calls st @ [Info]\<rparr>"
  let ?c = "case v of JStr s \<Rightarrow> convertInfoToObject s
            | _ \<Rightarrow> Inl (TypeError ''stringData.split is not a function'')"
  show ?thesis
  proof (cases ?c)
    case (Inl e)
    obtain e' where q: "quit_and_throw env (rethrow e None) ?s1
                      = ((Inl e' :: error + unit), st\<lparr>calls := calls st @ [Info, Quit]\<rparr>)"
      using quit_and_throw_result [of env _ ?s1] by auto
    show ?thesis
      using Inr Inl q
      by (cases "continueOnFail env")
         (auto simp add: info_branch_def then_do_def client_call_def push_def lift_def closes_once_def)
  next
    case (Inr obj)
    show ?thesis
      using \<open>respond env (calls st) Info = Inr v\<close> Inr
      by (auto simp add: info_branch_def then_do_def client_call_def push_def lift_def closes_once_def)
  qed
qed


lemma execute_unfold:
  assumes "getCredentials env = Inr credentials"
    and "respond env [] (Connect (setupRedisClient credentials)) = Inr r1"
    and "respond env [Connect (setupRedisClient credentials)] Ping = Inr r2"
    and "sparam env ''operation'' 0 = Some op_id"
  shows "execute env =
     (case (if op_id = ''info'' then info_branch env
            else if op_id \<in> set per_item_ops
            then item_loop env op_id (enumerate_items (getInputData env))
            else ret ())
           \<lparr> calls = [Connect (setupRedisClient credentials), Ping], returnItems = [] \<rparr> of
        (Inl e, st') \<Rightarrow> (Inl e, st')
      | (Inr u, st') \<Rightarrow>
          (case respond env (calls st') Quit of
             Inl e \<Rightarrow> (Inl e, st'\<lparr>calls := calls st' @ [Quit]\<rparr>)
           | Inr v \<Rightarrow> (Inr [returnItems st'], st'\<lparr>calls := calls st' @ [Quit]\<rparr>)))"
  using assms
  by (simp add: execute_def then_do_def lift_def client_call_def required_def ret_def
      initial_state_def split: prod.splits sum.splits)

theorem execute_closes_once_and_counts:
  assumes "getCredentials env = Inr credentials"
    and "respond env [] (Connect (setupRedisClient credentials)) = Inr r1"
    and "respond env [Connect (setupRedisClient credentials)] Ping = Inr r2"
    and "sparam env ''operation'' 0 = Some op_id"
    and "op_id \<noteq> ''jsonset''" and "op_id \<noteq> ''jsonget''"
  shows "filter connection_call (calls (snd (execute env)))
           = [Connect (setupRedisClient credentials), Quit]
       \<and> (op_id \<in> set per_item_ops \<longrightarrow> (\<forall>out. fst (execute env) = Inr out \<longrightarrow>
             out = [returnItems (snd (execute env))]
             \<and> length (returnItems (snd (execute env))) = length (getInputData env)))"
proof -
  let ?st = "\<lparr> calls = [Connect (setupRedisClient credentials), Ping], returnItems = [] \<rparr>"
  let ?mid = "if op_id = ''info'' then info_branch env
              else if op_id \<in> set per_item_ops
              then item_loop env op_id (enumerate_items (getInputData env))
              else ret ()"
  have body: "op_id \<in> set per_item_ops \<Longrightarrow> one_record (item_body env op_id i it)" for i it
    using one_record_item_body assms(5,6) by blast
  have mid: "closes_once ?st (?mid ?st)"
  proof (cases "op_id = ''info''")
    case True
    then show ?thesis using info_branch_closes_once by simp
  next
    case False
    show ?thesis
    proof (cases "op_id \<in> set per_item_ops")
      case True
      then show ?thesis
        using False item_loop_normal [of env op_id ?st "enumerate_items (getInputData env)"] body
        by simp
    next
      case no: False
      show ?thesis using False no by (simp add: closes_once_def ret_def)
    qed
  qed
  have cnt: "op_id \<in> set per_item_ops \<Longrightarrow> fst (?mid ?st) = Inr () \<Longrightarrow>
               length (returnItems (snd (?mid ?st))) = length (getInputData env)"
  proof -
    assume a: "op_id \<in> set per_item_ops" and b: "fst (?mid ?st) = Inr ()"
    have ni: "op_id \<noteq> ''info''" using a by (auto simp add: per_item_ops_def)
    show ?thesis
      using a b ni item_loop_normal [of env op_id ?st "enumerate_items (getInputData env)"] body
      by (simp add: enumerate_items_def)
  qed
  have cc: "connection_call (Connect c)" "connection_call Quit" "\<not> connection_call Ping" for c
    by (simp_all add: connection_call_def)
  obtain r st' where m: "?mid ?st = (r, st')" by fastforce
  have ex: "execute env =
     (case (r, st') of
        (Inl e, st') \<Rightarrow> (Inl e, st')
      | (Inr u, st') \<Rightarrow>
          (case respond env (calls st') Quit of
             Inl e \<Rightarrow> (Inl e, st'\<lparr>calls := calls st' @ [Quit]\<rparr>)
           | Inr v \<Rightarrow> (Inr [returnItems st'], st'\<lparr>calls := calls st' @ [Quit]\<rparr>)))"
    unfolding execute_unfold [OF assms(1-4)] m ..
  show ?thesis
  proof (cases r)
    case (Inl e)
    obtain cs where cs: "calls st' = calls ?st @ cs @ [Quit]" "no_connection_call cs"
      using mid m Inl by (auto simp add: closes_once_def)
    have "filter connection_call cs = []" using cs(2) by (simp add: no_connection_call_def)
    then show ?thesis
      unfolding ex using Inl cs(1) cc by simp
  next
    case (Inr u)
    obtain cs where cs: "calls st' = calls ?st @ cs" "no_connection_call cs"
      using mid m Inr by (auto simp add: closes_once_def)
    have f: "filter connection_call cs = []" using cs(2) by (simp add: no_connection_call_def)
    have len: "op_id \<in> set per_item_ops \<Longrightarrow> length (returnItems st') = length (getInputData env)"
      using cnt m Inr by simp
    show ?thesis
      unfolding ex using Inr cs(1) cc f len
      by (cases "respond env (calls st') Quit") simp_all
  qed
qed

section \<open>Failure isolation in the item loop\<close>

text \<open>
  C3, as stated, fails for the jsonget operation: under isolation its own handler of the
  exception appends a record with the error message and the item's key, not the record
  \<open>{error: message}\<close>.
\<close>

theorem jsonget_error_record_counterexample:
  "execute jsonget_isolated_env =
     (Inr [[\<lparr> json = [(''error'', JStr ''ERR unknown command''), (''key'', JStr ''k'')],
               pairedItem = Some 0 \<rparr>]],
      \<lparr> calls = [Connect local_client, Ping, SendCommand [''JSON.GET'', ''k'', ''$''], Quit],
        returnItems = [\<lparr> json = [(''error'', JStr ''ERR unknown command''), (''key'', JStr ''k'')],
                         pairedItem = Some 0 \<rparr>] \<rparr>)
   \<and> returnItems (snd (execute jsonget_isolated_env))
       \<noteq> [\<lparr> json = [(''error'', JStr ''ERR unknown command'')], pairedItem = Some 0 \<rparr>]"
  by code_simp


text \<open>
  C3, amended. For an item whose handler fails in an operation of the item loop other
  than jsonget and jsonset, the handler has added no output and made no connection call,
  and: with isolation enabled the dispatcher appends the error record \<open>{error: message}\<close>
  tagged with the item's index and goes on with the next item; with isolation disabled it
  makes the one call \<open>quit\<close> and ends there, with the state at the failure plus that
  call, so that no later item is touched, and the error is the failure itself when that
  is a NodeOperationError, the failure wrapped with the item's index otherwise (the error
  of \<open>quit\<close> if that call fails). Under isolation the handler of jsonset inside its own loop
  appends the same record and goes on, and the one of jsonget appends the record with the
  message and the item's key, when that key can be read. Under isolation the item loop
  never ends in an error; without isolation a loop of these operations that ends in an
  error has made one connection call, \<open>quit\<close>, as its last call. What jsonget and jsonset
  do without isolation, or when the key cannot be read, is not part of the statement.
\<close>

theorem item_failure_handling:
  "(op_id \<in> set per_item_ops \<and> op_id \<noteq> ''jsonset'' \<and> op_id \<noteq> ''jsonget''
      \<and> item_body env op_id i it st = (Inl e, st') \<longrightarrow>
      returnItems st' = returnItems st
      \<and> (\<exists>cs. calls st' = calls st @ cs \<and> no_connection_call cs)
      \<and> (continueOnFail env \<longrightarrow>
           item_loop env op_id ((i, it) # rest) st =
             item_loop env op_id rest
               (st'\<lparr>returnItems := returnItems st'
                      @ [\<lparr> json = [(''error'', JStr (error_message e))], pairedItem = Some i \<rparr>]\<rparr>))
      \<and> (\<not> continueOnFail env \<longrightarrow>
           item_loop env op_id ((i, it) # rest) st =
             ((case respond env (calls st') Quit of
                 Inl quit_error \<Rightarrow> Inl quit_error
               | Inr _ \<Rightarrow> Inl (rethrow e (Some i))),
              st'\<lparr>calls := calls st' @ [Quit]\<rparr>)))
   \<and> (continueOnFail env \<and> jsonset_item env i st = (Inl e, st') \<longrightarrow>
      jsonset_loop env (i # others) st =
        jsonset_loop env others
          (st'\<lparr>returnItems := returnItems st'
                 @ [\<lparr> json = [(''error'', JStr (error_message e))], pairedItem = Some i \<rparr>]\<rparr>))
   \<and> (continueOnFail env \<and> jsonget_item env i st = (Inl e, st') \<and> sparam env ''key'' i = Some k \<longrightarrow>
      jsonget_loop env (i # others) st =
        jsonget_loop env others
          (st'\<lparr>returnItems := returnItems st'
                 @ [\<lparr> json = [(''error'', JStr (error_message e)), (''key'', JStr k)],
                      pairedItem = Some i \<rparr>]\<rparr>))
   \<and> (continueOnFail env \<longrightarrow> fst (item_loop env op_id items st) = Inr ())
   \<and> (op_id \<in> set per_item_ops \<and> op_id \<noteq> ''jsonset'' \<and> op_id \<noteq> ''jsonget''
      \<and> \<not> continueOnFail env \<and> fst (item_loop env op_id items st) = Inl e \<longrightarrow>
      (\<exists>cs. calls (snd (item_loop env op_id items st)) = calls st @ cs @ [Quit]
            \<and> no_connection_call cs))"
proof -
  have iso: "continueOnFail env \<Longrightarrow> fst (item_loop env op_id items st) = Inr ()"
  proof (induction items arbitrary: st)
    case Nil
    show ?case by simp
  next
    case (Cons p items)
    obtain j x where p: "p = (j, x)" by (cases p)
    obtain r s1 where b: "item_body env op_id j x st = (r, s1)" by fastforce
    show ?case
      using Cons.IH [OF Cons.prems] Cons.prems b
      by (cases r) (simp_all add: p)
  qed
  have quit: "\<not> continueOnFail env \<Longrightarrow> item_body env op_id i it st = (Inl e, st') \<Longrightarrow>
      item_loop env op_id ((i, it) # rest) st =
        ((case respond env (calls st') Quit of
            Inl quit_error \<Rightarrow> Inl quit_error
          | Inr _ \<Rightarrow> Inl (rethrow e (Some i))),
         st'\<lparr>calls := calls st' @ [Quit]\<rparr>)"
    by (cases "respond env (calls st') Quit")
       (simp_all add: quit_and_throw_def then_do_def client_call_def throw_def)
  have body: "op_id \<in> set per_item_ops \<Longrightarrow> op_id \<noteq> ''jsonset'' \<Longrightarrow> op_id \<noteq> ''jsonget'' \<Longrightarrow>
      one_record (item_body env op_id j x)" for j x
    by (rule one_record_item_body)
  have fail: "op_id \<in> set per_item_ops \<Longrightarrow> op_id \<noteq> ''jsonset'' \<Longrightarrow> op_id \<noteq> ''jsonget'' \<Longrightarrow>
      item_body env op_id i it st = (Inl e, st') \<Longrightarrow>
      returnItems st' = returnItems st \<and> (\<exists>cs. calls st' = calls st @ cs \<and> no_connection_call cs)"
  proof -
    assume a: "op_id \<in> set per_item_ops" "op_id \<noteq> ''jsonset''" "op_id \<noteq> ''jsonget''"
      and b: "item_body env op_id i it st = (Inl e, st')"
    have r: "one_record (item_body env op_id i it)" using body a by blast
    show ?thesis
      using one_record_calls [OF r, of st] one_record_items [OF r, of st] b by simp
  qed
  have closes: "op_id \<in> set per_item_ops \<Longrightarrow> op_id \<noteq> ''jsonset'' \<Longrightarrow> op_id \<noteq> ''jsonget'' \<Longrightarrow>
      fst (item_loop env op_id items st) = Inl e \<Longrightarrow>
      (\<exists>cs. calls (snd (item_loop env op_id items st)) = calls st @ cs @ [Quit]
            \<and> no_connection_call cs)"
  proof -
    assume a: "op_id \<in> set per_item_ops" "op_id \<noteq> ''jsonset''" "op_id \<noteq> ''jsonget''"
      and b: "fst (item_loop env op_id items st) = Inl e"
    have "closes_once st (item_loop env op_id items st)"
      using item_loop_normal [of env op_id st items] body a by blast
    then show ?thesis
      using b by (cases "item_loop env op_id items st") (simp add: closes_once_def)
  qed
  show ?thesis
    using iso quit fail closes
    by (simp add: error_item_def jsonget_error_item_def)
qed


theorem item_failure_handling_witness:
  "item_loop pairs_isolated_env ''mset'' [(0, empty_item), (1, empty_item)] initial_state =
     (Inr (),
      \<lparr> calls = [],
        returnItems =
          [\<lparr> json = [(''error'', JStr ''Key-value pairs must be even number of arguments'')],
              pairedItem = Some 0 \<rparr>,
           \<lparr> json = [(''error'', JStr ''Key-value pairs must be even number of arguments'')],
              pairedItem = Some 1 \<rparr>] \<rparr>)
   \<and> item_loop pairs_env ''mset'' [(0, empty_item), (1, empty_item)] initial_state =
     (Inl (NodeOperationError ''Key-value pairs must be even number of arguments'' None),
      \<lparr> calls = [Quit], returnItems = [] \<rparr>)
   \<and> item_loop delete_failing_env ''delete'' [(0, empty_item), (1, empty_item)] initial_state =
     (Inl (NodeOperationError ''READONLY'' (Some 0)),
      \<lparr> calls = [Del ''k'', Quit], returnItems = [] \<rparr>)
   \<and> jsonset_loop jsonset_isolated_env [0] initial_state =
     (Inr (),
      \<lparr> calls = [SendCommand [''JSON.SET'', ''k'', ''$'', ''1'']],
        returnItems = [\<lparr> json = [(''error'', JStr ''ERR unknown command'')],
                         pairedItem = Some 0 \<rparr>] \<rparr>)
   \<and> jsonget_loop jsonget_isolated_env [0] initial_state =
     (Inr (),
      \<lparr> calls = [SendCommand [''JSON.GET'', ''k'', ''$'']],
        returnItems = [\<lparr> json = [(''error'', JStr ''ERR unknown command''), (''key'', JStr ''k'')],
                         pairedItem = Some 0 \<rparr>] \<rparr>)"
proof -
  let ?E = "NodeOperationError ''Key-value pairs must be even number of arguments'' None"
  have ops: "''mset'' \<in> set per_item_ops \<and> ''mset'' \<noteq> ''jsonset'' \<and> ''mset'' \<noteq> ''jsonget''"
    "''delete'' \<in> set per_item_ops \<and> ''delete'' \<noteq> ''jsonset'' \<and> ''delete'' \<noteq> ''jsonget''"
    by (simp_all add: per_item_ops_def)
  have iso: "continueOnFail pairs_isolated_env"
    by (simp add: pairs_isolated_env_def)
  have b1: "item_body pairs_isolated_env ''mset'' 0 empty_item initial_state = (Inl ?E, initial_state)"
    by code_simp
  have r1: "item_loop pairs_isolated_env ''mset'' [(1, empty_item)]
              (initial_state\<lparr>returnItems := returnItems initial_state
                 @ [\<lparr> json = [(''error'', JStr (error_message ?E))], pairedItem = Some 0 \<rparr>]\<rparr>) =
     (Inr (),
      \<lparr> calls = [],
        returnItems =
          [\<lparr> json = [(''error'', JStr ''Key-value pairs must be even number of arguments'')],
              pairedItem = Some 0 \<rparr>,
           \<lparr> json = [(''error'', JStr ''Key-value pairs must be even number of arguments'')],
              pairedItem = Some 1 \<rparr>] \<rparr>)"
    by code_simp
  have p1: "item_loop pairs_isolated_env ''mset'' [(0, empty_item), (1, empty_item)] initial_state =
     (Inr (),
      \<lparr> calls = [],
        returnItems =
          [\<lparr> json = [(''error'', JStr ''Key-value pairs must be even number of arguments'')],
              pairedItem = Some 0 \<rparr>,
           \<lparr> json = [(''error'', JStr ''Key-value pairs must be even number of arguments'')],
              pairedItem = Some 1 \<rparr>] \<rparr>)"
    using item_failure_handling [where env = pairs_isolated_env and op_id = "''mset''" and i = 0
        and it = empty_item and st = initial_state and e = ?E and st' = initial_state
        and rest = "[(1, empty_item)]"] ops(1) iso b1 r1
    by simp
  have n2: "\<not> continueOnFail pairs_env"
    by (simp add: pairs_env_def base_env_def)
  have b2: "item_body pairs_env ''mset'' 0 empty_item initial_state = (Inl ?E, initial_state)"
    by code_simp
  have q2: "respond pairs_env (calls initial_state) Quit = Inr (JStr ''OK'')"
    by (simp add: pairs_env_def base_env_def)
  have p2: "item_loop pairs_env ''mset'' [(0, empty_item), (1, empty_item)] initial_state =
     (Inl (NodeOperationError ''Key-value pairs must be even number of arguments'' None),
      \<lparr> calls = [Quit], returnItems = [] \<rparr>)"
    using item_failure_handling [where env = pairs_env and op_id = "''mset''" and i = 0
        and it = empty_item and st = initial_state and e = ?E and st' = initial_state
        and rest = "[(1, empty_item)]"] ops(1) n2 b2 q2
    by (simp add: initial_state_def rethrow_def)
  let ?s3 = "\<lparr> calls = [Del ''k''], returnItems = [] \<rparr>"
  have n3: "\<not> continueOnFail delete_failing_env"
    by (simp add: delete_failing_env_def base_env_def)
  have b3: "item_body delete_failing_env ''delete'' 0 empty_item initial_state
              = (Inl (Error ''READONLY''), ?s3)"
    by code_simp
  have q3: "respond delete_failing_env (calls ?s3) Quit = Inr (JStr ''OK'')"
    by (simp add: delete_failing_env_def)
  have p3: "item_loop delete_failing_env ''delete'' [(0, empty_item), (1, empty_item)] initial_state =
     (Inl (NodeOperationError ''READONLY'' (Some 0)),
      \<lparr> calls = [Del ''k'', Quit], returnItems = [] \<rparr>)"
    using item_failure_handling [where env = delete_failing_env and op_id = "''delete''" and i = 0
        and it = empty_item and st = initial_state and e = "Error ''READONLY''" and st' = ?s3
        and rest = "[(1, empty_item)]"] ops(2) n3 b3 q3
    by (simp add: rethrow_def)
  have iso4: "continueOnFail jsonset_isolated_env"
    by (simp add: jsonset_isolated_env_def)
  have b4: "jsonset_item jsonset_isolated_env 0 initial_state =
              (Inl (Error ''ERR unknown command''),
               \<lparr> calls = [SendCommand [''JSON.SET'', ''k'', ''$'', ''1'']], returnItems = [] \<rparr>)"
    by code_simp
  have p4: "jsonset_loop jsonset_isolated_env [0] initial_state =
     (Inr (),
      \<lparr> calls = [SendCommand [''JSON.SET'', ''k'', ''$'', ''1'']],
        returnItems = [\<lparr> json = [(''error'', JStr ''ERR unknown command'')],
                         pairedItem = Some 0 \<rparr>] \<rparr>)"
    using item_failure_handling [where env = jsonset_isolated_env and i = 0 and st = initial_state
        and e = "Error ''ERR unknown command''"
        and st' = "\<lparr> calls = [SendCommand [''JSON.SET'', ''k'', ''$'', ''1'']], returnItems = [] \<rparr>"
        and others = "[]"]
      iso4 b4
    by simp
  have iso5: "continueOnFail jsonget_isolated_env"
    by (simp add: jsonget_isolated_env_def)
  have k5: "sparam jsonget_isolated_env ''key'' 0 = Some ''k''"
    by (simp add: jsonget_isolated_env_def jsonget_failing_env_def jsonget_params_def)
  have b5: "jsonget_item jsonget_isolated_env 0 initial_state =
              (Inl (Error ''ERR unknown command''),
               \<lparr> calls = [SendCommand [''JSON.GET'', ''k'', ''$'']], returnItems = [] \<rparr>)"
    by code_simp
  have p5: "jsonget_loop jsonget_isolated_env [0] initial_state =
     (Inr (),
      \<lparr> calls = [SendCommand [''JSON.GET'', ''k'', ''$'']],
        returnItems = [\<lparr> json = [(''error'', JStr ''ERR unknown command''), (''key'', JStr ''k'')],
                         pairedItem = Some 0 \<rparr>] \<rparr>)"
    using item_failure_handling [where env = jsonget_isolated_env and i = 0 and st = initial_state
        and e = "Error ''ERR unknown command''"
        and st' = "\<lparr> calls = [SendCommand [''JSON.GET'', ''k'', ''$'']], returnItems = [] \<rparr>"
        and others = "[]" and k = "''k''"]
      iso5 b5 k5
    by simp
  show ?thesis
    using p1 p2 p3 p4 p5 by simp
qed

section \<open>The nested loops of jsonget and jsonset\<close>

text \<open>
  C1 does not hold of the code: the jsonget branch (jsonset alike) runs a loop of its own
  inside the item loop, with its own handler that quits and rethrows, and the rethrown
  error reaches the handler of the item loop, which quits again. One item, a rejected
  JSON.GET and no isolation give two \<open>quit\<close> calls; the closed client rejects the second.
\<close>

theorem execute_jsonget_failure_quits_twice:
  "execute jsonget_failing_env =
     (Inl (Error ''The client is closed''),
      \<lparr> calls = [Connect local_client, Ping, SendCommand [''JSON.GET'', ''k'', ''$''], Quit, Quit],
        returnItems = [] \<rparr>)
   \<and> count_list (calls (snd (execute jsonget_failing_env))) Quit = 2"
  by code_simp

text \<open>
  C2 does not hold of the code, by the same nesting: each of the two items of the item
  loop runs the inner loop over both items, and the run returns four records for two
  input items.
\<close>

theorem execute_jsonget_two_items_four_records:
  "length (getInputData jsonget_two_items_env) = 2
   \<and> fst (execute jsonget_two_items_env) =
       Inr [[\<lparr> json = [(''key'', JStr ''k''), (''path'', JStr ''$''), (''value'', JNull),
                       (''exists'', JBool False)], pairedItem = Some 0 \<rparr>,
             \<lparr> json = [(''key'', JStr ''k''), (''path'', JStr ''$''), (''value'', JNull),
                       (''exists'', JBool False)], pairedItem = Some 1 \<rparr>,
             \<lparr> json = [(''key'', JStr ''k''), (''path'', JStr ''$''), (''value'', JNull),
                       (''exists'', JBool False)], pairedItem = Some 0 \<rparr>,
             \<lparr> json = [(''key'', JStr ''k''), (''path'', JStr ''$''), (''value'', JNull),
                       (''exists'', JBool False)], pairedItem = Some 1 \<rparr>]]"
  by code_simp

end
